theory Spec2Isabelle
  imports Complex_Main "HOL-Library.Log_Nat"
begin

section \<open>JavaScript numbers\<close>

text \<open>
  A JavaScript number is an IEEE 754 double: NaN, an infinity, negative zero, or a finite
  value, here the rational it denotes (\<open>Fin 0\<close> is positive zero). The values that occur
  in a run are doubles: every operation below rounds its exact result to the nearest
  double, ties to even, with overflow to an infinity and underflow to a zero, as IEEE 754
  prescribes for \<open>+\<close>, \<open>-\<close>, \<open>*\<close> and \<open>/\<close>.
\<close>

datatype jsnum = NaN | Fin rat | NegZero | PosInf | NegInf

text \<open>\<open>b\<close> to the power \<open>e \<ge> 0\<close>, by squaring.\<close>

function ipow :: "rat \<Rightarrow> int \<Rightarrow> rat" where
  "ipow b e =
     (if e \<le> 0 then 1
      else if even e then ipow (b * b) (e div 2)
      else b * ipow (b * b) (e div 2))"
  by pat_completeness auto
termination
  by (relation "measure (\<lambda>(b, e). nat e)") auto

declare ipow.simps [simp del]

definition pow2 :: "int \<Rightarrow> rat" where
  "pow2 e = (if 0 \<le> e then ipow 2 e else 1 / ipow 2 (- e))"

text \<open>The exponent of the binade of \<open>m > 0\<close>: the \<open>E\<close> with \<open>2^E \<le> m < 2^(E+1)\<close>.\<close>

definition floor_log2 :: "rat \<Rightarrow> int" where
  "floor_log2 m =
     (if 1 \<le> m then bitlen \<lfloor>m\<rfloor> - 1
      else (let k = bitlen \<lfloor>1 / m\<rfloor> in if m = pow2 (1 - k) then 1 - k else - k))"

definition round_half_even :: "rat \<Rightarrow> int" where
  "round_half_even q =
     (let f = \<lfloor>q\<rfloor>; r = q - of_int f
      in if r < 1 / 2 then f else if 1 / 2 < r then f + 1 else if even f then f else f + 1)"

text \<open>
  The magnitude \<open>m > 0\<close> rounded to 53 significant bits, or to a multiple of \<open>2^-1074\<close> in
  the subnormal range. The result is 0 on underflow and at least \<open>2^1024\<close> on overflow.
\<close>

definition nearest_double :: "rat \<Rightarrow> rat" where
  "nearest_double m =
     (let e = max (floor_log2 m - 52) (- 1074)
      in of_int (round_half_even (m / pow2 e)) * pow2 e)"

definition signed_zero :: "bool \<Rightarrow> jsnum" where
  "signed_zero neg = (if neg then NegZero else Fin 0)"

definition signed_inf :: "bool \<Rightarrow> jsnum" where
  "signed_inf neg = (if neg then NegInf else PosInf)"

text \<open>The number for an exact result given by its sign and its magnitude \<open>m \<ge> 0\<close>.\<close>

definition number_of :: "bool \<Rightarrow> rat \<Rightarrow> jsnum" where
  "number_of neg m =
     (if m = 0 then signed_zero neg
      else (let d = nearest_double m
            in if pow2 1024 \<le> d then signed_inf neg
               else if d = 0 then signed_zero neg
               else Fin (if neg then - d else d)))"

text \<open>The number for a mathematical value, as for a numeric literal of the source.\<close>

definition number_value :: "rat \<Rightarrow> jsnum" where
  "number_value x = number_of (x < 0) \<bar>x\<bar>"

text \<open>The sign bit, and the value of a number that is finite.\<close>

fun is_neg :: "jsnum \<Rightarrow> bool" where
  "is_neg (Fin a) = (a < 0)"
| "is_neg NegZero = True"
| "is_neg NegInf = True"
| "is_neg _ = False"

fun fin_val :: "jsnum \<Rightarrow> rat option" where
  "fin_val (Fin a) = Some a"
| "fin_val NegZero = Some 0"
| "fin_val _ = None"

text \<open>\<open>ToBoolean\<close> on a number: the zeros and NaN are falsy.\<close>

fun truthy :: "jsnum \<Rightarrow> bool" where
  "truthy NaN = False"
| "truthy (Fin a) = (a \<noteq> 0)"
| "truthy NegZero = False"
| "truthy PosInf = True"
| "truthy NegInf = True"

text \<open>\<open>x > 0\<close>: false on NaN.\<close>

fun js_gt0 :: "jsnum \<Rightarrow> bool" where
  "js_gt0 (Fin a) = (0 < a)"
| "js_gt0 PosInf = True"
| "js_gt0 _ = False"

text \<open>\<open>x === 0\<close>: true of both zeros.\<close>

fun js_is0 :: "jsnum \<Rightarrow> bool" where
  "js_is0 (Fin a) = (a = 0)"
| "js_is0 NegZero = True"
| "js_is0 _ = False"

definition js_mul :: "jsnum \<Rightarrow> jsnum \<Rightarrow> jsnum" where
  "js_mul x y =
     (if x = NaN \<or> y = NaN then NaN
      else (let neg = (is_neg x \<noteq> is_neg y)
            in case (fin_val x, fin_val y) of
                 (Some a, Some b) \<Rightarrow> number_of neg (\<bar>a\<bar> * \<bar>b\<bar>)
               | (Some a, None) \<Rightarrow> if a = 0 then NaN else signed_inf neg
               | (None, Some b) \<Rightarrow> if b = 0 then NaN else signed_inf neg
               | (None, None) \<Rightarrow> signed_inf neg))"

definition js_div :: "jsnum \<Rightarrow> jsnum \<Rightarrow> jsnum" where
  "js_div x y =
     (if x = NaN \<or> y = NaN then NaN
      else (let neg = (is_neg x \<noteq> is_neg y)
            in case (fin_val x, fin_val y) of
                 (Some a, Some b) \<Rightarrow>
                   if b = 0 then (if a = 0 then NaN else signed_inf neg)
                   else number_of neg (\<bar>a\<bar> / \<bar>b\<bar>)
               | (Some a, None) \<Rightarrow> signed_zero neg
               | (None, Some b) \<Rightarrow> signed_inf neg
               | (None, None) \<Rightarrow> NaN))"

fun js_neg :: "jsnum \<Rightarrow> jsnum" where
  "js_neg NaN = NaN"
| "js_neg (Fin a) = (if a = 0 then NegZero else Fin (- a))"
| "js_neg NegZero = Fin 0"
| "js_neg PosInf = NegInf"
| "js_neg NegInf = PosInf"

text \<open>
  A sum that is exactly zero is negative zero only when both operands are; otherwise
  the exact sum is rounded.
\<close>

definition js_add :: "jsnum \<Rightarrow> jsnum \<Rightarrow> jsnum" where
  "js_add x y =
     (if x = NaN \<or> y = NaN then NaN
      else (case (fin_val x, fin_val y) of
              (Some a, Some b) \<Rightarrow>
                if a + b = 0 then signed_zero (x = NegZero \<and> y = NegZero)
                else number_value (a + b)
            | (Some a, None) \<Rightarrow> y
            | (None, Some b) \<Rightarrow> x
            | (None, None) \<Rightarrow> if x = y then x else NaN))"

definition js_sub :: "jsnum \<Rightarrow> jsnum \<Rightarrow> jsnum" where
  "js_sub x y = js_add x (js_neg y)"

text \<open>
  \<open>x.toFixed(d)\<close> takes the sign off a negative \<open>x\<close> and chooses the integer \<open>n\<close> with
  \<open>n / 10^d\<close> nearest to the exact value of \<open>x\<close>, the larger \<open>n\<close> on a tie.
\<close>

definition toFixed_digits :: "nat \<Rightarrow> rat \<Rightarrow> int" where
  "toFixed_digits d a = \<lfloor>\<bar>a\<bar> * 10 ^ d + 1 / 2\<rfloor>"

text \<open>
  \<open>parseFloat(x.toFixed(d))\<close> as one function on numbers. \<open>toFixed\<close> prints NaN, the
  infinities and every \<open>x\<close> with \<open>|x| \<ge> 10^21\<close> as \<open>String(x)\<close>, which \<open>parseFloat\<close>
  reads back as \<open>x\<close>. Any other \<open>x\<close> is printed as the digits of \<open>n\<close> with \<open>d\<close> decimals,
  after a minus sign when \<open>x < 0\<close>, and \<open>parseFloat\<close> yields the number for that decimal.
  Negative zero is printed without a sign.
\<close>

fun toFixed_parsed :: "nat \<Rightarrow> jsnum \<Rightarrow> jsnum" where
  "toFixed_parsed d (Fin a) =
     (if 10 ^ 21 \<le> \<bar>a\<bar> then Fin a
      else number_of (a < 0) (of_int (toFixed_digits d a) / 10 ^ d))"
| "toFixed_parsed d NegZero = Fin 0"
| "toFixed_parsed d x = x"

text \<open>Truthiness of a number that may be null (\<open>None\<close>).\<close>

fun truthy_opt :: "jsnum option \<Rightarrow> bool" where
  "truthy_opt None = False"
| "truthy_opt (Some v) = truthy v"

text \<open>\<open>v || null\<close> on a number or null: a falsy number becomes null.\<close>

definition or_null :: "jsnum option \<Rightarrow> jsnum option" where
  "or_null v = (if truthy_opt v then v else None)"

section \<open>Strings\<close>

text \<open>
  A string is a sequence of code units below 256 (the Latin-1 range), one \<open>char\<close> each;
  texts with other code units are outside the model. The white space and line
  terminators that \<open>trim\<close>, \<open>parseFloat\<close> and the conversion of a string to a number
  strip are, in this range, tab, line feed, vertical tab, form feed, carriage return,
  space and the no-break space.
\<close>

definition is_ws :: "char \<Rightarrow> bool" where
  "is_ws c =
     (c \<in> set [CHR '' '', CHR 0x09, CHR 0x0A, CHR 0x0B, CHR 0x0C, CHR 0x0D, CHR 0xA0])"

definition trim :: "string \<Rightarrow> string" where
  "trim s = rev (dropWhile is_ws (rev (dropWhile is_ws s)))"

definition is_digit :: "char \<Rightarrow> bool" where
  "is_digit c = (c \<in> set ''0123456789'')"

definition digit_val :: "char \<Rightarrow> int" where
  "digit_val c = of_char c - 48"

definition digits_val :: "string \<Rightarrow> int" where
  "digits_val ds = foldl (\<lambda>n c. 10 * n + digit_val c) 0 ds"

text \<open>An optional sign at the head of a string: whether it is a minus, and the rest.\<close>

fun parse_sign :: "string \<Rightarrow> bool \<times> string" where
  "parse_sign [] = (False, [])"
| "parse_sign (c # r) =
     (if c = CHR ''-'' then (True, r) else if c = CHR ''+'' then (False, r)
      else (False, c # r))"

text \<open>
  The exponent part at the head of a string (\<open>e\<close> or \<open>E\<close>, an optional sign, digits) and
  what follows it; exponent 0 and the whole string when there is none.
\<close>

fun parse_exponent :: "string \<Rightarrow> int \<times> string" where
  "parse_exponent [] = (0, [])"
| "parse_exponent (c # r) =
     (if c = CHR ''e'' \<or> c = CHR ''E''
      then (case parse_sign r of (neg, t) \<Rightarrow>
              (let ds = takeWhile is_digit t
               in if ds = [] then (0, c # r)
                  else (if neg then - digits_val ds else digits_val ds,
                        dropWhile is_digit t)))
      else (0, c # r))"

definition scale10 :: "rat \<Rightarrow> int \<Rightarrow> rat" where
  "scale10 x e = (if 0 \<le> e then x * ipow 10 e else x / ipow 10 (- e))"

text \<open>
  The longest prefix that is an unsigned decimal literal (digits, an optional point
  with optional digits, at least one digit in all, an optional exponent): its exact
  value and what follows it.
\<close>

definition parse_decimal :: "string \<Rightarrow> (rat \<times> string) option" where
  "parse_decimal s =
     (let ip = takeWhile is_digit s; r1 = dropWhile is_digit s
      in case r1 of
           [] \<Rightarrow> (if ip = [] then None else Some (of_int (digits_val ip), []))
         | c # r2 \<Rightarrow>
             if c = CHR ''.''
             then (let fp = takeWhile is_digit r2; r3 = dropWhile is_digit r2
                   in if ip = [] \<and> fp = [] then None
                      else (case parse_exponent r3 of (e, r4) \<Rightarrow>
                              Some (scale10 (of_int (digits_val (ip @ fp)) / 10 ^ length fp) e,
                                    r4)))
             else if ip = [] then None
             else (case parse_exponent r1 of (e, r4) \<Rightarrow>
                     Some (scale10 (of_int (digits_val ip)) e, r4)))"

text \<open>
  \<open>parseFloat\<close>: leading white space is skipped, the longest prefix that is a decimal
  literal (or a signed \<open>Infinity\<close>) is read and the rest ignored; NaN when there is no
  such prefix. The result is the number for the literal's value.
\<close>

definition parseFloat :: "string \<Rightarrow> jsnum" where
  "parseFloat s =
     (case parse_sign (dropWhile is_ws s) of (neg, u) \<Rightarrow>
        if take 8 u = ''Infinity'' then signed_inf neg
        else (case parse_decimal u of
                None \<Rightarrow> NaN
              | Some (m, rest) \<Rightarrow> number_of neg m))"

text \<open>The digits of a literal in radix 2, 8 or 16: its value, if every digit is valid.\<close>

definition radix_digit :: "char \<Rightarrow> int option" where
  "radix_digit c =
     (if is_digit c then Some (digit_val c)
      else if c \<in> set ''abcdef'' then Some (of_char c - 87)
      else if c \<in> set ''ABCDEF'' then Some (of_char c - 55)
      else None)"

fun radix_val :: "int \<Rightarrow> int \<Rightarrow> string \<Rightarrow> int option" where
  "radix_val b acc [] = Some acc"
| "radix_val b acc (c # r) =
     (case radix_digit c of
        None \<Rightarrow> None
      | Some v \<Rightarrow> if v < b then radix_val b (b * acc + v) r else None)"

definition radix_of :: "string \<Rightarrow> int option" where
  "radix_of t =
     (if take 2 t = ''0x'' \<or> take 2 t = ''0X'' then Some 16
      else if take 2 t = ''0o'' \<or> take 2 t = ''0O'' then Some 8
      else if take 2 t = ''0b'' \<or> take 2 t = ''0B'' then Some 2
      else None)"

text \<open>
  The conversion of a string to a number: white space is stripped at both ends; the
  empty string is 0; otherwise the whole string must be a decimal literal, a signed
  \<open>Infinity\<close>, or an unsigned binary, octal or hexadecimal integer literal.
\<close>

definition string_to_number :: "string \<Rightarrow> jsnum" where
  "string_to_number s =
     (let t = trim s
      in if t = [] then Fin 0
         else (case radix_of t of
                 Some b \<Rightarrow>
                   (if drop 2 t = [] then NaN
                    else (case radix_val b 0 (drop 2 t) of
                            None \<Rightarrow> NaN
                          | Some n \<Rightarrow> number_of False (of_int n)))
               | None \<Rightarrow>
                   (case parse_sign t of (neg, u) \<Rightarrow>
                      if u = ''Infinity'' then signed_inf neg
                      else (case parse_decimal u of
                              None \<Rightarrow> NaN
                            | Some (m, rest) \<Rightarrow> if rest = [] then number_of neg m else NaN))))"

text \<open>A number in a template literal: decimal digits.\<close>

fun show_nat :: "nat \<Rightarrow> string" where
  "show_nat n =
     (if n < 10 then [char_of (48 + n)]
      else show_nat (n div 10) @ [char_of (48 + n mod 10)])"

declare show_nat.simps [simp del]

section \<open>JSON values\<close>

text \<open>
  What \<open>res.json()\<close> yields, and \<open>undefined\<close> for a property that is not there. An object
  is the list of its own properties, each name once.
\<close>

datatype jsval =
  JUndefined | JNull | JBool bool | JNum jsnum | JStr string | JArr "jsval list"
  | JObj "(string \<times> jsval) list"

fun js_truthy :: "jsval \<Rightarrow> bool" where
  "js_truthy JUndefined = False"
| "js_truthy JNull = False"
| "js_truthy (JBool b) = b"
| "js_truthy (JNum n) = truthy n"
| "js_truthy (JStr s) = (s \<noteq> [])"
| "js_truthy (JArr xs) = True"
| "js_truthy (JObj kvs) = True"

definition nullish :: "jsval \<Rightarrow> bool" where
  "nullish v = (v = JUndefined \<or> v = JNull)"

text \<open>
  \<open>v.name\<close> for a value that is neither null nor undefined, and for the names that the
  code reads, none of which is inherited from a prototype: an object's own property,
  \<open>undefined\<close> otherwise.
\<close>

fun get_prop :: "jsval \<Rightarrow> string \<Rightarrow> jsval" where
  "get_prop (JObj kvs) name = (case map_of kvs name of None \<Rightarrow> JUndefined | Some v \<Rightarrow> v)"
| "get_prop v name = JUndefined"

text \<open>\<open>v[0]\<close> for a value that is neither null nor undefined.\<close>

fun index0 :: "jsval \<Rightarrow> jsval" where
  "index0 (JArr []) = JUndefined"
| "index0 (JArr (x # xs)) = x"
| "index0 (JStr []) = JUndefined"
| "index0 (JStr (c # s)) = JStr [c]"
| "index0 (JObj kvs) = get_prop (JObj kvs) ''0''"
| "index0 v = JUndefined"

text \<open>
  The message of the TypeError that reading a property of null or undefined throws, in
  the wording of V8.
\<close>

definition type_error :: "jsval \<Rightarrow> string \<Rightarrow> string" where
  "type_error base name =
     ''Cannot read properties of '' @ (if base = JNull then ''null'' else ''undefined'')
     @ '' (reading '' @ [CHR 0x27] @ name @ [CHR 0x27] @ '')''"

text \<open>
  \<open>ToNumber\<close>, as the arithmetic operators apply it to an operand. An array is converted
  through its string, the strings of its elements joined by commas: empty for no
  element, never a number for two or more. For the only element, null and undefined
  print as the empty string and a number prints as a string that reads back as the
  same number, negative zero as \<open>0\<close>. An object prints as \<open>[object Object]\<close>.
\<close>

fun to_number :: "jsval \<Rightarrow> jsnum" where
  "to_number JUndefined = NaN"
| "to_number JNull = Fin 0"
| "to_number (JBool b) = (if b then Fin 1 else Fin 0)"
| "to_number (JNum n) = n"
| "to_number (JStr s) = string_to_number s"
| "to_number (JArr []) = Fin 0"
| "to_number (JArr [JUndefined]) = Fin 0"
| "to_number (JArr [JNull]) = Fin 0"
| "to_number (JArr [JBool b]) = NaN"
| "to_number (JArr [JNum n]) = (if n = NegZero then Fin 0 else n)"
| "to_number (JArr [JStr s]) = string_to_number s"
| "to_number (JArr [JArr ys]) = to_number (JArr ys)"
| "to_number (JArr [JObj kvs]) = NaN"
| "to_number (JArr (x # y # zs)) = NaN"
| "to_number (JObj kvs) = NaN"

section \<open>Upstream requests\<close>

text \<open>
  What one request meets: the fetch rejects (a network failure, or the abort when the
  timer fires) with an error of the given message, or a response arrives with its HTTP
  status and its body. A body that cannot be read to its end counts as a request that
  failed.
\<close>

datatype 'b fetched = Failed string | Responded nat 'b

text \<open>\<open>res.ok\<close>: a status from 200 to 299.\<close>

definition res_ok :: "nat \<Rightarrow> bool" where
  "res_ok status = (200 \<le> status \<and> status \<le> 299)"

text \<open>
  \<open>res.json()\<close>: rejects with a message on a body that is not JSON, and yields the
  value of the document otherwise (never \<open>undefined\<close>).
\<close>

datatype json_body = Malformed string | Document jsval

text \<open>
  A settled promise. A rejection carries the \<open>message\<close> of its reason, \<open>None\<close> when the
  reason has none.
\<close>

datatype 'a settled = Fulfilled 'a | Rejected "string option"

text \<open>
  The quotes page after \<open>cheerio.load\<close>: the rows that \<open>$('table tr')\<close> selects, in
  document order, each as the texts of the \<open>td\<close> cells found in it.
\<close>

type_synonym table_rows = "string list list"

record upstreams =
  sge_page :: "table_rows fetched"
  comex_feed :: "json_body fetched"
  fx_feed :: "json_body fetched"

definition sge_url :: string where
  "sge_url = ''https://en.sge.com.cn/data_DelayedQuotes''"

definition fx_url :: string where
  "fx_url = ''https://open.er-api.com/v6/latest/USD''"

text \<open>\<open>$(cells[i]).text()\<close>: the empty text for an index past the cells.\<close>

definition cell_text :: "string list \<Rightarrow> nat \<Rightarrow> string" where
  "cell_text cells i = (if i < length cells then cells ! i else [])"

section \<open>The aggregator's adapters\<close>

text \<open>The constant: the number for the literal \<open>32.1507465686\<close>.\<close>

definition TROY_OZ_PER_KG :: jsnum where
  "TROY_OZ_PER_KG = number_value (321507465686 / 10000000000)"

record sge_quote =
  latest :: jsnum
  high :: jsnum
  low :: jsnum
  open_price :: "jsnum option"

text \<open>The body of the \<open>each\<close> callback of \<open>fetchSGE\<close>: \<open>result\<close> before and after one row.\<close>

definition sge_row :: "sge_quote option \<Rightarrow> string list \<Rightarrow> sge_quote option" where
  "sge_row result cells =
     (if 4 \<le> length cells
      then (let variety = trim (cell_text cells 0)
            in if variety = ''Ag(T+D)''
               then (let latest' = parseFloat (trim (cell_text cells 1));
                         high' = parseFloat (trim (cell_text cells 2));
                         low' = parseFloat (trim (cell_text cells 3));
                         open' = (if 5 \<le> length cells
                                  then Some (parseFloat (trim (cell_text cells 4)))
                                  else None)
                     in if truthy latest' \<and> js_gt0 latest'
                        then Some \<lparr>latest = latest', high = high', low = low',
                                   open_price = or_null open'\<rparr>
                        else result)
               else result)
      else result)"

definition fetchSGE :: "table_rows fetched \<Rightarrow> sge_quote settled" where
  "fetchSGE up =
     (case up of
        Failed m \<Rightarrow> Rejected (Some m)
      | Responded status rows \<Rightarrow>
          if \<not> res_ok status then Rejected (Some (''SGE HTTP '' @ show_nat status))
          else (case foldl sge_row None rows of
                  None \<Rightarrow> Rejected (Some ''Ag(T+D) not found or market closed'')
                | Some result \<Rightarrow> Fulfilled result))"

text \<open>The quote of \<open>fetchCOMEX\<close>: each field holds whatever the document holds.\<close>

record comex_quote =
  price :: jsval
  change :: jsval
  changePercent :: jsval
  prevClose :: jsval
  comex_timestamp :: jsval

text \<open>\<open>a && b\<close> for operands that are evaluated without effect: \<open>a\<close> when it is falsy.\<close>

definition js_and :: "jsval \<Rightarrow> jsval \<Rightarrow> jsval" where
  "js_and a b = (if js_truthy a then b else a)"

text \<open>\<open>a || b\<close>.\<close>

definition js_or :: "jsval \<Rightarrow> jsval \<Rightarrow> jsval" where
  "js_or a b = (if js_truthy a then a else b)"

text \<open>
  \<open>fetchCOMEX\<close>. Reading \<open>items\<close> of the document null throws a TypeError; every other
  property is read of a value that is truthy, or of the document.
\<close>

definition fetchCOMEX :: "string \<Rightarrow> json_body fetched \<Rightarrow> comex_quote settled" where
  "fetchCOMEX now up =
     (case up of
        Failed m \<Rightarrow> Rejected (Some m)
      | Responded status body \<Rightarrow>
          if \<not> res_ok status then Rejected (Some (''COMEX HTTP '' @ show_nat status))
          else (case body of
                  Malformed m \<Rightarrow> Rejected (Some m)
                | Document data \<Rightarrow>
                    if nullish data then Rejected (Some (type_error data ''items''))
                    else (let item = js_and (get_prop data ''items'')
                                       (index0 (get_prop data ''items''))
                          in if \<not> js_truthy item \<or> \<not> js_truthy (get_prop item ''xagPrice'')
                             then Rejected (Some ''Silver price not found in COMEX data'')
                             else Fulfilled \<lparr>price = get_prop item ''xagPrice'',
                                    change = get_prop item ''chgXag'',
                                    changePercent = get_prop item ''pcXag'',
                                    prevClose = get_prop item ''xagClose'',
                                    comex_timestamp = js_or (get_prop data ''date'') (JStr now)\<rparr>)))"

text \<open>\<open>data.rates && data.rates.CNY\<close>, for a document that is not null.\<close>

definition rates_CNY :: "jsval \<Rightarrow> jsval" where
  "rates_CNY data = js_and (get_prop data ''rates'') (get_prop (get_prop data ''rates'') ''CNY'')"

text \<open>
  \<open>fetchFX\<close>. Reading \<open>rates\<close> of the document null throws a TypeError; \<open>CNY\<close> is read of
  a \<open>rates\<close> that is truthy.
\<close>

definition fetchFX :: "json_body fetched \<Rightarrow> jsval settled" where
  "fetchFX up =
     (case up of
        Failed m \<Rightarrow> Rejected (Some m)
      | Responded status body \<Rightarrow>
          if \<not> res_ok status then Rejected (Some (''FX HTTP '' @ show_nat status))
          else (case body of
                  Malformed m \<Rightarrow> Rejected (Some m)
                | Document data \<Rightarrow>
                    if nullish data then Rejected (Some (type_error data ''rates''))
                    else (let cny = rates_CNY data
                          in if \<not> js_truthy cny then Rejected (Some ''CNY rate not found'')
                             else Fulfilled cny)))"

section \<open>The aggregator's handler\<close>

record sge_view =
  usd_per_oz :: jsnum
  rmb_per_kg :: jsnum
  rmb_high :: jsnum
  rmb_low :: jsnum
  rmb_open :: "jsnum option"

record fx_view =
  usd_cny :: jsval

record premium_view =
  usd :: jsnum
  percent :: jsnum

record error_entry =
  source :: string
  message :: string

record result =
  timestamp :: string
  sge :: "sge_view option"
  comex :: "comex_quote option"
  fx :: "fx_view option"
  premium :: "premium_view option"
  errors :: "error_entry list"

datatype 'b response = Ended nat | Json nat 'b

text \<open>\<open>reason?.message || 'Unknown error'\<close>.\<close>

definition reason_message :: "string option \<Rightarrow> string" where
  "reason_message reason =
     (case reason of
        None \<Rightarrow> ''Unknown error''
      | Some m \<Rightarrow> if m = [] then ''Unknown error'' else m)"

text \<open>\<open>result.errors.push({ source, message })\<close>.\<close>

definition push_error :: "string \<Rightarrow> string \<Rightarrow> result \<Rightarrow> result" where
  "push_error src msg r = r\<lparr>errors := errors r @ [\<lparr>source = src, message = msg\<rparr>]\<rparr>"

definition process_comex :: "comex_quote settled \<Rightarrow> result \<Rightarrow> result" where
  "process_comex comexResult r =
     (case comexResult of
        Fulfilled v \<Rightarrow> r\<lparr>comex := Some v\<rparr>
      | Rejected reason \<Rightarrow> push_error ''comex'' (reason_message reason) r)"

definition process_fx :: "jsval settled \<Rightarrow> result \<Rightarrow> result" where
  "process_fx fxResult r =
     (case fxResult of
        Fulfilled v \<Rightarrow> r\<lparr>fx := Some \<lparr>usd_cny = v\<rparr>\<rparr>
      | Rejected reason \<Rightarrow> push_error ''fx'' (reason_message reason) r)"

text \<open>
  The premium, once \<open>result.sge\<close> is set: computed when \<open>result.comex\<close> is there. The
  operators \<open>-\<close> and \<open>/\<close> convert the COMEX price to a number.
\<close>

definition calc_premium :: "result \<Rightarrow> sge_view \<Rightarrow> result" where
  "calc_premium r s =
     (case comex r of
        None \<Rightarrow> r
      | Some c \<Rightarrow>
          (let premiumUsd = js_sub (usd_per_oz s) (to_number (price c));
               premiumPct = js_mul (js_div (js_sub (usd_per_oz s) (to_number (price c)))
                                      (to_number (price c))) (Fin 100)
           in r\<lparr>premium := Some \<lparr>usd = toFixed_parsed 4 premiumUsd,
                                   percent = toFixed_parsed 2 premiumPct\<rparr>\<rparr>))"

text \<open>
  The three branches of "Process SGE", in the source's order: fulfilled with
  \<open>result.fx\<close> set, rejected, fulfilled with \<open>result.fx\<close> null. The operator \<open>*\<close>
  converts the rate to a number.
\<close>

definition process_sge :: "sge_quote settled \<Rightarrow> result \<Rightarrow> result" where
  "process_sge sgeResult r =
     (case (sgeResult, fx r) of
        (Fulfilled q, Some f) \<Rightarrow>
          (let usdPerOz = js_div (latest q) (js_mul TROY_OZ_PER_KG (to_number (usd_cny f)));
               s = \<lparr>usd_per_oz = toFixed_parsed 4 usdPerOz, rmb_per_kg = latest q,
                    rmb_high = high q, rmb_low = low q, rmb_open = open_price q\<rparr>
           in calc_premium (r\<lparr>sge := Some s\<rparr>) s)
      | (Rejected reason, _) \<Rightarrow> push_error ''sge'' (reason_message reason) r
      | (Fulfilled q, None) \<Rightarrow> push_error ''sge'' ''Cannot convert without FX rate'' r)"

text \<open>
  The handler from the three settled outcomes on: COMEX, then FX, then SGE are
  processed into the result, which starts empty.
\<close>

definition assemble ::
  "string \<Rightarrow> sge_quote settled \<Rightarrow> comex_quote settled \<Rightarrow> jsval settled \<Rightarrow> result" where
  "assemble now sgeResult comexResult fxResult =
     process_sge sgeResult
       (process_fx fxResult
          (process_comex comexResult
             \<lparr>timestamp = now, sge = None, comex = None, fx = None, premium = None,
              errors = []\<rparr>))"

text \<open>\<open>result.comex || result.sge ? 200 : 502\<close>.\<close>

definition status_of :: "result \<Rightarrow> nat" where
  "status_of r = (if comex r \<noteq> None \<or> sge r \<noteq> None then 200 else 502)"

definition settle_and_respond ::
  "string \<Rightarrow> sge_quote settled \<Rightarrow> comex_quote settled \<Rightarrow> jsval settled \<Rightarrow> result response" where
  "settle_and_respond now sgeResult comexResult fxResult =
     (let r = assemble now sgeResult comexResult fxResult in Json (status_of r) r)"

text \<open>
  The exported handler: the request's method, the clock when the result is created and
  when the COMEX adapter reads it, and what the three requests meet.
\<close>

definition prices_handler :: "string \<Rightarrow> string \<Rightarrow> string \<Rightarrow> upstreams \<Rightarrow> result response" where
  "prices_handler method now now' w =
     (if method = ''OPTIONS'' then Ended 200
      else settle_and_respond now (fetchSGE (sge_page w)) (fetchCOMEX now' (comex_feed w))
             (fetchFX (fx_feed w)))"

section \<open>The standalone Shanghai endpoint\<close>

text \<open>
  The four variables \<open>agLatest\<close>, \<open>agHigh\<close>, \<open>agLow\<close>, \<open>agOpen\<close> are null together before
  the first matching row (\<open>None\<close>) and assigned together by every matching row.
\<close>

record ag_vars =
  agLatest :: jsnum
  agHigh :: jsnum
  agLow :: jsnum
  agOpen :: "jsnum option"

definition shanghai_row :: "ag_vars option \<Rightarrow> string list \<Rightarrow> ag_vars option" where
  "shanghai_row vars cells =
     (if 4 \<le> length cells
      then (let variety = trim (cell_text cells 0)
            in if variety = ''Ag(T+D)''
               then Some \<lparr>agLatest = parseFloat (trim (cell_text cells 1)),
                          agHigh = parseFloat (trim (cell_text cells 2)),
                          agLow = parseFloat (trim (cell_text cells 3)),
                          agOpen = or_null (Some (parseFloat (trim (cell_text cells 4))))\<rparr>
               else vars)
      else vars)"

record shanghai_quote = sge_view +
  usd_cny_rate :: jsval
  quote_timestamp :: string
  quote_source :: string
  "note" :: string

record shanghai_failure =
  error :: string
  failure_timestamp :: string
  hint :: string

datatype shanghai_body = Quote shanghai_quote | Failure shanghai_failure

text \<open>
  Steps 1 and 2 of the \<open>try\<close> block: the page is requested (the URL is appended to the
  list of requests) and scraped. \<open>Inl\<close> is the message of the error thrown.
\<close>

definition shanghai_sge :: "upstreams \<Rightarrow> string list \<Rightarrow> (string + ag_vars) \<times> string list" where
  "shanghai_sge w reqs =
     (let reqs' = reqs @ [sge_url]
      in case sge_page w of
           Failed m \<Rightarrow> (Inl m, reqs')
         | Responded status rows \<Rightarrow>
             if \<not> res_ok status then (Inl (''SGE returned status '' @ show_nat status), reqs')
             else (case foldl shanghai_row None rows of
                     None \<Rightarrow> (Inl ''Ag(T+D) price not found or market closed (0.0)'', reqs')
                   | Some vars \<Rightarrow>
                       if \<not> truthy (agLatest vars) \<or> js_is0 (agLatest vars)
                       then (Inl ''Ag(T+D) price not found or market closed (0.0)'', reqs')
                       else (Inr vars, reqs')))"

text \<open>
  Step 3: the rate is requested and read. \<open>fxData.rates.CNY\<close> throws a TypeError when
  the document or its \<open>rates\<close> is null or undefined.
\<close>

definition shanghai_fx :: "upstreams \<Rightarrow> string list \<Rightarrow> (string + jsval) \<times> string list" where
  "shanghai_fx w reqs =
     (let reqs' = reqs @ [fx_url]
      in case fx_feed w of
           Failed m \<Rightarrow> (Inl m, reqs')
         | Responded status body \<Rightarrow>
             if \<not> res_ok status
             then (Inl (''Exchange rate API returned status '' @ show_nat status), reqs')
             else (case body of
                     Malformed m \<Rightarrow> (Inl m, reqs')
                   | Document fxData \<Rightarrow>
                       if nullish fxData then (Inl (type_error fxData ''rates''), reqs')
                       else if nullish (get_prop fxData ''rates'')
                       then (Inl (type_error (get_prop fxData ''rates'') ''CNY''), reqs')
                       else (let usdCny = get_prop (get_prop fxData ''rates'') ''CNY''
                             in if \<not> js_truthy usdCny
                                then (Inl ''CNY rate not found in exchange rate response'', reqs')
                                else (Inr usdCny, reqs'))))"

text \<open>The \<open>catch\<close> block's response.\<close>

definition shanghai_catch :: "string \<Rightarrow> string \<Rightarrow> shanghai_body response" where
  "shanghai_catch m now =
     Json 500 (Failure \<lparr>error = m, failure_timestamp = now,
       hint = ''SGE may be unreachable or market is closed. Cached data may still be served.''\<rparr>)"

text \<open>Steps 4 and 5: the conversion and the response.\<close>

definition shanghai_quote_of :: "ag_vars \<Rightarrow> jsval \<Rightarrow> string \<Rightarrow> shanghai_body response" where
  "shanghai_quote_of vars usdCny now =
     (let usdPerOz = js_div (agLatest vars) (js_mul TROY_OZ_PER_KG (to_number usdCny))
      in Json 200 (Quote \<lparr>usd_per_oz = toFixed_parsed 4 usdPerOz, rmb_per_kg = agLatest vars,
           rmb_high = agHigh vars, rmb_low = agLow vars, rmb_open = agOpen vars,
           usd_cny_rate = usdCny, quote_timestamp = now,
           quote_source = ''Shanghai Gold Exchange - Ag(T+D) Delayed Quotes'',
           note = ''Exchange rate is USD/CNY (onshore). Offshore CNH rate may differ slightly.''\<rparr>))"

text \<open>
  The exported handler: the response, and the requests issued in order. An error thrown
  in a step ends the \<open>try\<close> block there.
\<close>

definition shanghai_handler ::
  "string \<Rightarrow> string \<Rightarrow> upstreams \<Rightarrow> shanghai_body response \<times> string list" where
  "shanghai_handler method now w =
     (if method = ''OPTIONS'' then (Ended 200, [])
      else (case shanghai_sge w [] of
              (Inl m, reqs1) \<Rightarrow> (shanghai_catch m now, reqs1)
            | (Inr vars, reqs1) \<Rightarrow>
                (case shanghai_fx w reqs1 of
                   (Inl m, reqs2) \<Rightarrow> (shanghai_catch m now, reqs2)
                 | (Inr usdCny, reqs2) \<Rightarrow> (shanghai_quote_of vars usdCny now, reqs2))))"

section \<open>Matching rows of the quotes table\<close>

text \<open>
  The notions in which C9 and C10 describe the scan of the table. A matching row has at
  least four cells and the label as the trimmed text of its first cell; its latest value
  is what \<open>parseFloat\<close> reads in its second cell; a valid row is a matching row whose
  latest value is positive.
\<close>

definition is_ag_row :: "string list \<Rightarrow> bool" where
  "is_ag_row cells = (4 \<le> length cells \<and> trim (cell_text cells 0) = ''Ag(T+D)'')"

definition row_latest :: "string list \<Rightarrow> jsnum" where
  "row_latest cells = parseFloat (trim (cell_text cells 1))"

definition valid_ag_row :: "string list \<Rightarrow> bool" where
  "valid_ag_row cells = (is_ag_row cells \<and> js_gt0 (row_latest cells))"

text \<open>The quote that \<open>fetchSGE\<close> builds from one row.\<close>

definition quote_of_row :: "string list \<Rightarrow> sge_quote" where
  "quote_of_row cells =
     \<lparr>latest = row_latest cells,
      high = parseFloat (trim (cell_text cells 2)),
      low = parseFloat (trim (cell_text cells 3)),
      open_price = or_null (if 5 \<le> length cells
                            then Some (parseFloat (trim (cell_text cells 4))) else None)\<rparr>"

text \<open>The quote of the last valid row, if there is a valid row.\<close>

definition last_valid_quote :: "table_rows \<Rightarrow> sge_quote option" where
  "last_valid_quote rows =
     (let vs = filter valid_ag_row rows
      in if vs = [] then None else Some (quote_of_row (last vs)))"

text \<open>The values that the standalone endpoint assigns from one row.\<close>

definition vars_of_row :: "string list \<Rightarrow> ag_vars" where
  "vars_of_row cells =
     \<lparr>agLatest = row_latest cells,
      agHigh = parseFloat (trim (cell_text cells 2)),
      agLow = parseFloat (trim (cell_text cells 3)),
      agOpen = or_null (Some (parseFloat (trim (cell_text cells 4))))\<rparr>"

text \<open>The last matching row, if there is one.\<close>

definition last_ag_row :: "table_rows \<Rightarrow> string list option" where
  "last_ag_row rows =
     (let ms = filter is_ag_row rows in if ms = [] then None else Some (last ms))"

section \<open>Rounding to a double\<close>

text \<open>\<open>ipow\<close> is the power.\<close>

lemma ipow_power: "ipow b e = b ^ nat e"
proof (induction b e rule: ipow.induct)
  case (1 b e)
  show ?case
  proof (cases "e \<le> 0")
    case True
    then show ?thesis by (simp add: ipow.simps)
  next
    case False
    then have pos: "0 < e" by simp
    have sq: "ipow (b * b) (e div 2) = (b * b) ^ nat (e div 2)"
      using 1 False by (cases "even e") auto
    have half: "(b * b) ^ nat (e div 2) = b ^ (2 * nat (e div 2))"
      by (simp add: power_mult power2_eq_square)
    show ?thesis
    proof (cases "even e")
      case True
      then have "2 * nat (e div 2) = nat e" using pos by (auto elim: evenE)
      with sq half True False show ?thesis by (simp add: ipow.simps [of b e])
    next
      case False
      then have "Suc (2 * nat (e div 2)) = nat e"
        using pos by (auto elim!: oddE simp: nat_add_distrib nat_mult_distrib)
      then have "b ^ nat e = b * b ^ (2 * nat (e div 2))" by (metis power_Suc)
      with sq half False pos show ?thesis by (simp add: ipow.simps [of b e])
    qed
  qed
qed

text \<open>Rounding to an integer moves a value by no more than a half.\<close>

lemma round_half_even_nearest: "\<bar>of_int (round_half_even q) - q\<bar> \<le> 1 / 2"
proof -
  have "of_int \<lfloor>q\<rfloor> \<le> q" and "q < of_int \<lfloor>q\<rfloor> + 1" by linarith+
  then show ?thesis
    by (auto simp add: round_half_even_def Let_def)
qed

lemma pow2_pos: "0 < pow2 e"
  by (simp add: pow2_def ipow_power)

text \<open>The rounded magnitude is within half a unit in the last place of the exact one.\<close>

lemma nearest_double_error:
  "\<bar>nearest_double m - m\<bar> \<le> pow2 (max (floor_log2 m - 52) (- 1074)) / 2"
proof -
  let ?e = "max (floor_log2 m - 52) (- 1074)"
  let ?n = "round_half_even (m / pow2 ?e)"
  have p: "0 < pow2 ?e" by (rule pow2_pos)
  have "\<bar>of_int ?n - m / pow2 ?e\<bar> \<le> 1 / 2" by (rule round_half_even_nearest)
  then have "\<bar>of_int ?n - m / pow2 ?e\<bar> * pow2 ?e \<le> (1 / 2) * pow2 ?e"
    using p by (simp add: mult_right_mono)
  moreover have "\<bar>of_int ?n - m / pow2 ?e\<bar> * pow2 ?e = \<bar>of_int ?n * pow2 ?e - m\<bar>"
  proof -
    have "\<bar>of_int ?n - m / pow2 ?e\<bar> * pow2 ?e = \<bar>(of_int ?n - m / pow2 ?e) * pow2 ?e\<bar>"
      using p by (simp add: abs_mult)
    also have "(of_int ?n - m / pow2 ?e) * pow2 ?e = of_int ?n * pow2 ?e - m"
      using p by (simp add: left_diff_distrib)
    finally show ?thesis .
  qed
  ultimately show ?thesis by (simp add: nearest_double_def Let_def)
qed

text \<open>
  The doubles for \<open>0.1\<close>, for \<open>7.15\<close> and for the constant, and two ties at \<open>2^53\<close> that
  go to the even neighbour.
\<close>

lemma number_value_examples:
  "number_value (1 / 10) = Fin (3602879701896397 / 36028797018963968)"
  "number_value (715 / 100) = Fin (4025092166962381 / 562949953421312)"
  "TROY_OZ_PER_KG = Fin (1131203830203361 / 35184372088832)"
  "number_value 9007199254740993 = Fin 9007199254740992"
  "number_value 9007199254740995 = Fin 9007199254740996"
  by code_simp+

lemma pow2_nonneg_exp: "0 \<le> e \<Longrightarrow> pow2 e = 2 ^ nat e"
  by (simp add: pow2_def ipow_power)

lemma pow2_neg_exp: "e \<le> 0 \<Longrightarrow> pow2 e = 1 / 2 ^ nat (- e)"
  by (cases "e = 0") (simp_all add: pow2_def ipow_power)

lemma pow2_Suc: "pow2 (e + 1) = 2 * pow2 e"
proof (cases "0 \<le> e")
  case True
  then show ?thesis by (simp add: pow2_nonneg_exp nat_add_distrib)
next
  case False
  then have "nat (- e) = Suc (nat (- (e + 1)))" by simp
  then have "(2::rat) ^ nat (- e) = 2 * 2 ^ nat (- (e + 1))" by simp
  with False show ?thesis by (simp add: pow2_neg_exp)
qed

text \<open>\<open>floor_log2\<close> finds the binade of a positive value.\<close>

lemma floor_log2_bounds:
  assumes "0 < m"
  shows "pow2 (floor_log2 m) \<le> m \<and> m < pow2 (floor_log2 m + 1)"
proof (cases "1 \<le> m")
  case True
  let ?x = "\<lfloor>m\<rfloor>"
  from True have x: "0 < ?x" by simp
  from bitlen_bounds [OF x] have lo: "2 ^ nat (bitlen ?x - 1) \<le> ?x" and hi: "?x < 2 ^ nat (bitlen ?x)"
    by simp_all
  from x have b: "1 \<le> bitlen ?x" by (simp add: bitlen_alt_def)
  have "(2::rat) ^ nat (bitlen ?x - 1) = of_int (2 ^ nat (bitlen ?x - 1))" by simp
  also have "\<dots> \<le> of_int ?x" using lo by (simp only: of_int_le_iff)
  also have "\<dots> \<le> m" by simp
  finally have 1: "pow2 (bitlen ?x - 1) \<le> m" using b by (simp add: pow2_nonneg_exp)
  from hi have "?x + 1 \<le> 2 ^ nat (bitlen ?x)" by simp
  then have "(of_int (?x + 1) :: rat) \<le> of_int (2 ^ nat (bitlen ?x))" by (simp only: of_int_le_iff)
  moreover have "m < of_int (?x + 1)" by simp linarith
  ultimately have "m < 2 ^ nat (bitlen ?x)" by simp
  then have 2: "m < pow2 (bitlen ?x - 1 + 1)" using b by (simp add: pow2_nonneg_exp)
  from True 1 2 show ?thesis by (simp add: floor_log2_def)
next
  case False
  let ?y = "1 / m"
  let ?x = "\<lfloor>?y\<rfloor>"
  let ?k = "bitlen ?x"
  from False assms have y: "1 < ?y" by simp
  then have x: "0 < ?x" by simp
  from bitlen_bounds [OF x] have lo: "2 ^ nat (?k - 1) \<le> ?x" and hi: "?x < 2 ^ nat ?k"
    by simp_all
  from x have k: "1 \<le> ?k" by (simp add: bitlen_alt_def)
  have "(2::rat) ^ nat (?k - 1) = of_int (2 ^ nat (?k - 1))" by simp
  also have "\<dots> \<le> of_int ?x" using lo by (simp only: of_int_le_iff)
  also have "\<dots> \<le> ?y" by simp
  finally have a: "2 ^ nat (?k - 1) \<le> 1 / m" .
  from hi have "?x + 1 \<le> 2 ^ nat ?k" by simp
  then have "(of_int (?x + 1) :: rat) \<le> of_int (2 ^ nat ?k)" by (simp only: of_int_le_iff)
  moreover have "?y < of_int (?x + 1)" by simp linarith
  ultimately have c: "1 / m < 2 ^ nat ?k" by simp
  from a assms have up: "m \<le> 1 / 2 ^ nat (?k - 1)"
    by (simp add: field_simps)
  from c assms have dn: "1 / 2 ^ nat ?k < m"
    by (simp add: field_simps)
  have p1: "pow2 (1 - ?k) = 1 / 2 ^ nat (?k - 1)" using k by (simp add: pow2_neg_exp)
  have p0: "pow2 (- ?k) = 1 / 2 ^ nat ?k" using k by (simp add: pow2_neg_exp)
  show ?thesis
  proof (cases "m = pow2 (1 - ?k)")
    case True
    have "pow2 (1 - ?k + 1) = 2 * pow2 (1 - ?k)" by (rule pow2_Suc)
    then have "pow2 (1 - ?k) < pow2 (1 - ?k + 1)" using pow2_pos [of "1 - ?k"] by linarith
    with True False show ?thesis by (simp add: floor_log2_def Let_def)
  next
    case neq: False
    with up p1 have "m < pow2 (1 - ?k)" by simp
    then have "m < pow2 (- ?k + 1)" by (simp add: add.commute)
    with dn p0 neq False show ?thesis by (simp add: floor_log2_def Let_def)
  qed
qed

section \<open>The fields of the composite result\<close>

text \<open>
  Each field of the result that the aggregator's handler assembles, as a function of the
  three settled outcomes.
\<close>

lemmas assemble_defs = assemble_def process_sge_def process_fx_def process_comex_def
  push_error_def calc_premium_def Let_def

lemma comex_assemble:
  "comex (assemble now s c f) = (case c of Fulfilled v \<Rightarrow> Some v | Rejected _ \<Rightarrow> None)"
  by (cases s; cases c; cases f) (simp_all add: assemble_defs)

lemma fx_assemble:
  "fx (assemble now s c f) = (case f of Fulfilled v \<Rightarrow> Some \<lparr>usd_cny = v\<rparr> | Rejected _ \<Rightarrow> None)"
  by (cases s; cases c; cases f) (simp_all add: assemble_defs)

lemma sge_assemble:
  "sge (assemble now s c f) =
     (case (s, f) of
        (Fulfilled q, Fulfilled r) \<Rightarrow>
          Some \<lparr>usd_per_oz = toFixed_parsed 4
                  (js_div (latest q) (js_mul TROY_OZ_PER_KG (to_number r))),
                rmb_per_kg = latest q, rmb_high = high q, rmb_low = low q,
                rmb_open = open_price q\<rparr>
      | _ \<Rightarrow> None)"
  by (cases s; cases c; cases f) (simp_all add: assemble_defs)


lemma errors_assemble:
  "errors (assemble now s c f) =
     (case c of Fulfilled _ \<Rightarrow> [] | Rejected e \<Rightarrow> [\<lparr>source = ''comex'', message = reason_message e\<rparr>])
     @ (case f of Fulfilled _ \<Rightarrow> [] | Rejected e \<Rightarrow> [\<lparr>source = ''fx'', message = reason_message e\<rparr>])
     @ (case s of
          Rejected e \<Rightarrow> [\<lparr>source = ''sge'', message = reason_message e\<rparr>]
        | Fulfilled _ \<Rightarrow>
            (case f of
               Fulfilled _ \<Rightarrow> []
             | Rejected _ \<Rightarrow> [\<lparr>source = ''sge'', message = ''Cannot convert without FX rate''\<rparr>]))"
  by (cases s; cases c; cases f) (simp_all add: assemble_defs)

text \<open>
  Below \<open>10^21\<close> the value that \<open>parseFloat(x.toFixed(d))\<close> yields is the number for a
  decimal of \<open>d\<close> places that is no further than half of \<open>10^-d\<close> from the exact value of
  \<open>x\<close>, with the sign of \<open>x\<close>.
\<close>

lemma toFixed_parsed_nearest:
  assumes "\<bar>a\<bar> < 10 ^ 21"
  shows "\<exists>n::int. toFixed_parsed d (Fin a) = number_of (a < 0) (of_int n / 10 ^ d)
           \<and> \<bar>of_int n / 10 ^ d - \<bar>a\<bar>\<bar> \<le> 1 / (2 * 10 ^ d)"
proof -
  let ?y = "\<bar>a\<bar> * 10 ^ d"
  let ?n = "toFixed_digits d a"
  have pos: "(0::rat) < 10 ^ d" by simp
  have n: "?n = \<lfloor>?y + 1 / 2\<rfloor>" by (simp add: toFixed_digits_def)
  have "of_int \<lfloor>?y + 1 / 2\<rfloor> \<le> ?y + 1 / 2" and "?y + 1 / 2 < of_int \<lfloor>?y + 1 / 2\<rfloor> + 1"
    by linarith+
  then have "\<bar>of_int \<lfloor>?y + 1 / 2\<rfloor> - ?y\<bar> \<le> 1 / 2" by linarith
  then have "\<bar>of_int ?n - ?y\<bar> \<le> 1 / 2" by (simp only: n)
  then have "\<bar>of_int ?n - ?y\<bar> / 10 ^ d \<le> (1 / 2) / 10 ^ d"
    by (rule divide_right_mono) (rule less_imp_le [OF pos])
  moreover have "\<bar>of_int ?n / 10 ^ d - \<bar>a\<bar>\<bar> = \<bar>of_int ?n - ?y\<bar> / 10 ^ d"
  proof -
    have "of_int ?n / 10 ^ d - \<bar>a\<bar> = (of_int ?n - ?y) / 10 ^ d"
      by (simp add: diff_divide_distrib)
    then show ?thesis by simp
  qed
  ultimately have "\<bar>of_int ?n / 10 ^ d - \<bar>a\<bar>\<bar> \<le> 1 / (2 * 10 ^ d)" by simp
  with assms show ?thesis by (intro exI [of _ ?n]) simp
qed

text \<open>The example of the specification, in the arithmetic of the code.\<close>

lemma usd_per_oz_9875_715:
  "toFixed_parsed 4 (js_div (Fin 9875) (js_mul TROY_OZ_PER_KG (number_value (715 / 100))))
   = number_value (429576 / 10 ^ 4)"
  by code_simp


section \<open>Failure isolation and the order of the errors\<close>

text \<open>
  C1, as amended. For every combination of the three outcomes the handler answers with
  a composite result. The COMEX outcome appears in it exactly when the COMEX adapter
  succeeded and the FX outcome exactly when the FX adapter succeeded, whatever the other
  two did. The SGE quote appears exactly when both the SGE adapter and the FX adapter
  succeeded: a failure of the COMEX adapter never hides it, a failure of the FX adapter
  does.
\<close>

theorem assemble_isolation:
  "comex (assemble now s c f) = (case c of Fulfilled v \<Rightarrow> Some v | Rejected _ \<Rightarrow> None)
   \<and> fx (assemble now s c f)
       = (case f of Fulfilled v \<Rightarrow> Some \<lparr>usd_cny = v\<rparr> | Rejected _ \<Rightarrow> None)
   \<and> sge (assemble now s c f)
       = (case (s, f) of
            (Fulfilled q, Fulfilled r) \<Rightarrow>
              Some \<lparr>usd_per_oz = toFixed_parsed 4
                      (js_div (latest q) (js_mul TROY_OZ_PER_KG (to_number r))),
                    rmb_per_kg = latest q, rmb_high = high q, rmb_low = low q,
                    rmb_open = open_price q\<rparr>
          | _ \<Rightarrow> None)
   \<and> (\<exists>status. settle_and_respond now s c f = Json status (assemble now s c f))"
  by (simp add: comex_assemble fx_assemble sge_assemble settle_and_respond_def Let_def)

text \<open>The COMEX adapter fails, the SGE quote is reported all the same.\<close>

theorem assemble_isolation_witness:
  "sge (assemble ''t''
         (Fulfilled \<lparr>latest = Fin 9875, high = Fin 9900, low = Fin 9800, open_price = None\<rparr>)
         (Rejected (Some ''COMEX HTTP 503'')) (Fulfilled (JNum (number_value (715 / 100)))))
   = Some \<lparr>usd_per_oz = number_value (429576 / 10 ^ 4), rmb_per_kg = Fin 9875,
           rmb_high = Fin 9900, rmb_low = Fin 9800, rmb_open = None\<rparr>"
  using assemble_isolation [of "''t''"
      "Fulfilled \<lparr>latest = Fin 9875, high = Fin 9900, low = Fin 9800, open_price = None\<rparr>"
      "Rejected (Some ''COMEX HTTP 503'')" "Fulfilled (JNum (number_value (715 / 100)))"]
    usd_per_oz_9875_715
  by simp

text \<open>
  C1 as stated fails: the FX adapter alone fails, the SGE and COMEX adapters succeed, and
  the SGE adapter's quote is absent from the result.
\<close>

theorem fx_failure_hides_sge_quote:
  "sge (assemble ''t''
         (Fulfilled \<lparr>latest = Fin 9875, high = Fin 9900, low = Fin 9800, open_price = None\<rparr>)
         (Fulfilled \<lparr>price = JNum (Fin (435 / 10)), change = JUndefined,
            changePercent = JUndefined, prevClose = JUndefined, comex_timestamp = JStr ''t''\<rparr>)
         (Rejected (Some ''FX HTTP 503'')))
   = None"
  by (simp add: assemble_defs)

text \<open>
  C7, as amended. The errors are in the order in which the handler processes the
  outcomes: the entry for \<open>comex\<close> (the reference price) first, then the entry for \<open>fx\<close>,
  then the entry for \<open>sge\<close> (the local market), each only when there is one.
\<close>

theorem errors_in_processing_order:
  "map source (errors (assemble now s c f))
   = (case c of Fulfilled _ \<Rightarrow> [] | Rejected _ \<Rightarrow> [''comex''])
     @ (case f of Fulfilled _ \<Rightarrow> [] | Rejected _ \<Rightarrow> [''fx''])
     @ (case (s, f) of (Fulfilled _, Fulfilled _) \<Rightarrow> [] | _ \<Rightarrow> [''sge''])"
  by (cases s; cases c; cases f) (simp_all add: errors_assemble)

theorem errors_in_processing_order_witness:
  "map source (errors (assemble ''t'' (Rejected None)
     (Fulfilled \<lparr>price = JNum (Fin (435 / 10)), change = JUndefined,
        changePercent = JUndefined, prevClose = JUndefined, comex_timestamp = JStr ''t''\<rparr>)
     (Rejected (Some ''FX HTTP 503''))))
   = [''fx'', ''sge'']"
  using errors_in_processing_order [of "''t''" "Rejected None"
      "Fulfilled \<lparr>price = JNum (Fin (435 / 10)), change = JUndefined,
         changePercent = JUndefined, prevClose = JUndefined, comex_timestamp = JStr ''t''\<rparr>"
      "Rejected (Some ''FX HTTP 503'')"]
  by simp

text \<open>
  C7 as stated fails: when all three adapters fail, the entry for the reference price
  comes before the entry for \<open>fx\<close>.
\<close>

theorem errors_reference_before_fx:
  "errors (assemble ''t'' (Rejected (Some ''SGE HTTP 500'')) (Rejected (Some ''COMEX HTTP 500''))
     (Rejected (Some ''FX HTTP 500'')))
   = [\<lparr>source = ''comex'', message = ''COMEX HTTP 500''\<rparr>,
      \<lparr>source = ''fx'', message = ''FX HTTP 500''\<rparr>,
      \<lparr>source = ''sge'', message = ''SGE HTTP 500''\<rparr>]"
  by (simp add: errors_assemble reason_message_def)

section \<open>Conversion to USD per ounce\<close>

text \<open>
  C2, as amended. For every fulfilled SGE quote with latest price \<open>p\<close> and every fulfilled
  FX rate \<open>r\<close>, the handler sets \<open>usd_per_oz\<close> to \<open>p / (32.1507465686 * r)\<close>, computed in
  the double arithmetic of the code, taken through \<open>toFixed(4)\<close>: when the quotient
  computed is finite and below \<open>10^21\<close>, the result is the number for a decimal of 4
  places within \<open>0.00005\<close> of that quotient. The standalone endpoint computes the same. In
  particular \<open>p = 9875.0\<close> and \<open>r = 7.15\<close> yield \<open>42.9576\<close>.
\<close>

theorem usd_per_oz_formula:
  "(\<exists>v. sge (assemble now (Fulfilled q) c (Fulfilled r)) = Some v
        \<and> usd_per_oz v
            = toFixed_parsed 4
                (js_div (latest q)
                   (js_mul (number_value (321507465686 / 10 ^ 10)) (to_number r))))
   \<and> (\<forall>x. js_div (latest q) (js_mul (number_value (321507465686 / 10 ^ 10)) (to_number r))
            = Fin x \<and> \<bar>x\<bar> < 10 ^ 21
        \<longrightarrow> (\<exists>v n. sge (assemble now (Fulfilled q) c (Fulfilled r)) = Some v
               \<and> usd_per_oz v = number_of (x < 0) (of_int n / 10 ^ 4)
               \<and> \<bar>of_int n / 10 ^ 4 - \<bar>x\<bar>\<bar> \<le> 1 / (2 * 10 ^ 4)))
   \<and> (latest q = Fin 9875 \<and> r = JNum (number_value (715 / 100))
        \<longrightarrow> map_option usd_per_oz (sge (assemble now (Fulfilled q) c (Fulfilled r)))
            = Some (number_value (429576 / 10 ^ 4)))
   \<and> (\<exists>b. shanghai_quote_of vars r now = Json 200 (Quote b)
        \<and> usd_per_oz b
            = toFixed_parsed 4
                (js_div (agLatest vars)
                   (js_mul (number_value (321507465686 / 10 ^ 10)) (to_number r))))"
proof (intro conjI allI impI)
  show "\<exists>v. sge (assemble now (Fulfilled q) c (Fulfilled r)) = Some v
        \<and> usd_per_oz v
            = toFixed_parsed 4
                (js_div (latest q)
                   (js_mul (number_value (321507465686 / 10 ^ 10)) (to_number r)))"
    by (simp add: sge_assemble TROY_OZ_PER_KG_def)
next
  fix x
  assume h: "js_div (latest q) (js_mul (number_value (321507465686 / 10 ^ 10)) (to_number r))
            = Fin x \<and> \<bar>x\<bar> < 10 ^ 21"
  then obtain n :: int
    where n: "toFixed_parsed 4 (Fin x) = number_of (x < 0) (of_int n / 10 ^ 4)"
      "\<bar>of_int n / 10 ^ 4 - \<bar>x\<bar>\<bar> \<le> 1 / (2 * 10 ^ 4)"
    using toFixed_parsed_nearest [of x 4] by blast
  have "js_div (latest q) (js_mul TROY_OZ_PER_KG (to_number r)) = Fin x"
    using h by (simp add: TROY_OZ_PER_KG_def)
  with n show "\<exists>v n. sge (assemble now (Fulfilled q) c (Fulfilled r)) = Some v
               \<and> usd_per_oz v = number_of (x < 0) (of_int n / 10 ^ 4)
               \<and> \<bar>of_int n / 10 ^ 4 - \<bar>x\<bar>\<bar> \<le> 1 / (2 * 10 ^ 4)"
    by (simp add: sge_assemble) blast
next
  assume "latest q = Fin 9875 \<and> r = JNum (number_value (715 / 100))"
  then show "map_option usd_per_oz (sge (assemble now (Fulfilled q) c (Fulfilled r)))
            = Some (number_value (429576 / 10 ^ 4))"
    using usd_per_oz_9875_715 by (simp add: sge_assemble)
next
  show "\<exists>b. shanghai_quote_of vars r now = Json 200 (Quote b)
        \<and> usd_per_oz b
            = toFixed_parsed 4
                (js_div (agLatest vars)
                   (js_mul (number_value (321507465686 / 10 ^ 10)) (to_number r)))"
    by (simp add: shanghai_quote_of_def TROY_OZ_PER_KG_def)
qed

lemma quotient_9875_715:
  "js_div (Fin 9875) (js_mul (number_value (321507465686 / 10 ^ 10))
     (to_number (JNum (number_value (715 / 100)))))
   = Fin (1511436149966643 / 35184372088832)"
  by code_simp

theorem usd_per_oz_formula_witness:
  "map_option usd_per_oz (sge (assemble ''t''
       (Fulfilled \<lparr>latest = Fin 9875, high = Fin 9900, low = Fin 9800, open_price = None\<rparr>)
       (Rejected None) (Fulfilled (JNum (number_value (715 / 100))))))
     = Some (number_value (429576 / 10 ^ 4))
   \<and> (\<exists>v n. sge (assemble ''t''
       (Fulfilled \<lparr>latest = Fin 9875, high = Fin 9900, low = Fin 9800, open_price = None\<rparr>)
       (Rejected None) (Fulfilled (JNum (number_value (715 / 100))))) = Some v
         \<and> usd_per_oz v
             = number_of ((1511436149966643 / 35184372088832 :: rat) < 0) (of_int n / 10 ^ 4)
         \<and> \<bar>of_int n / 10 ^ 4 - \<bar>1511436149966643 / 35184372088832 :: rat\<bar>\<bar>
             \<le> 1 / (2 * 10 ^ 4))"
proof -
  let ?q = "\<lparr>latest = Fin 9875, high = Fin 9900, low = Fin 9800, open_price = None\<rparr>"
  let ?r = "JNum (number_value (715 / 100))"
  note formula = usd_per_oz_formula [of "''t''" ?q "Rejected None" ?r]
  have quote: "latest ?q = Fin 9875 \<and> ?r = JNum (number_value (715 / 100))"
    by simp
  have bound: "js_div (latest ?q) (js_mul (number_value (321507465686 / 10 ^ 10)) (to_number ?r))
        = Fin (1511436149966643 / 35184372088832)
      \<and> \<bar>1511436149966643 / 35184372088832 :: rat\<bar> < 10 ^ 21"
    using quotient_9875_715 by simp
  from formula [THEN conjunct2, THEN conjunct2, THEN conjunct1, rule_format, OF quote]
  have "map_option usd_per_oz (sge (assemble ''t'' (Fulfilled ?q) (Rejected None) (Fulfilled ?r)))
      = Some (number_value (429576 / 10 ^ 4))" .
  moreover note formula [THEN conjunct2, THEN conjunct1, rule_format, OF bound]
  ultimately show ?thesis by (rule conjI)
qed

text \<open>C2 as stated fails: \<open>p = 9875.0\<close> and \<open>r = 7.15\<close> do not yield \<open>42.9603\<close>.\<close>

theorem usd_per_oz_example_is_not_429603:
  "map_option usd_per_oz (sge (assemble ''t''
       (Fulfilled \<lparr>latest = Fin 9875, high = Fin 9900, low = Fin 9800, open_price = None\<rparr>)
       (Rejected None) (Fulfilled (JNum (number_value (715 / 100))))))
     \<noteq> Some (number_value (429603 / 10 ^ 4))"
proof -
  have "number_value (429576 / 10 ^ 4) \<noteq> number_value (429603 / 10 ^ 4)"
    by code_simp
  then show ?thesis using usd_per_oz_9875_715 by (simp add: sge_assemble)
qed

text \<open>
  The quotient that is rounded is the one the double arithmetic produces, with the
  constant as a double: for a latest price read from the page text \<open>0.00482261198529\<close>
  and the rate 1, where the decimals divide to \<open>0.00015\<close> exactly, the result is
  \<open>0.0001\<close>.
\<close>

lemma usd_per_oz_rounds_the_double:
  "toFixed_parsed 4 (js_div (parseFloat ''0.00482261198529'')
       (js_mul TROY_OZ_PER_KG (to_number (JNum (Fin 1)))))
   = number_value (1 / 10 ^ 4)"
  "toFixed_parsed 4 (js_div (Fin (3475058166384725 / 144115188075855872))
       (js_mul TROY_OZ_PER_KG (to_number (JNum (Fin 1)))))
   = number_value (8 / 10 ^ 4)"
  by code_simp+

text \<open>
  C3. The result's \<open>sge\<close> field is present if and only if the SGE adapter succeeded and
  the result's \<open>fx\<close> field is present (which it is exactly when the FX adapter succeeded).
  When the SGE adapter succeeded and \<open>fx\<close> is absent, \<open>sge\<close> stays absent and the errors
  hold an entry for \<open>sge\<close> with the message "Cannot convert without FX rate".
\<close>

theorem sge_present_iff_quote_and_rate:
  "(sge (assemble now s c f) \<noteq> None)
     = ((\<exists>q. s = Fulfilled q) \<and> fx (assemble now s c f) \<noteq> None)
   \<and> (fx (assemble now s c f) \<noteq> None) = (\<exists>r. f = Fulfilled r)
   \<and> ((\<exists>q. s = Fulfilled q) \<and> fx (assemble now s c f) = None
        \<longrightarrow> sge (assemble now s c f) = None
          \<and> \<lparr>source = ''sge'', message = ''Cannot convert without FX rate''\<rparr>
              \<in> set (errors (assemble now s c f)))"
  by (cases s; cases f) (simp_all add: sge_assemble fx_assemble errors_assemble)

theorem sge_present_iff_quote_and_rate_witness:
  "sge (assemble ''t''
       (Fulfilled \<lparr>latest = Fin 9875, high = Fin 9900, low = Fin 9800, open_price = None\<rparr>)
       (Rejected None) (Rejected (Some ''FX HTTP 503''))) = None
   \<and> \<lparr>source = ''sge'', message = ''Cannot convert without FX rate''\<rparr>
       \<in> set (errors (assemble ''t''
       (Fulfilled \<lparr>latest = Fin 9875, high = Fin 9900, low = Fin 9800, open_price = None\<rparr>)
       (Rejected None) (Rejected (Some ''FX HTTP 503''))))"
proof -
  have "fx (assemble ''t''
       (Fulfilled \<lparr>latest = Fin 9875, high = Fin 9900, low = Fin 9800, open_price = None\<rparr>)
       (Rejected None) (Rejected (Some ''FX HTTP 503''))) = None"
    by (simp add: fx_assemble)
  then show ?thesis
    using sge_present_iff_quote_and_rate [of "''t''"
        "Fulfilled \<lparr>latest = Fin 9875, high = Fin 9900, low = Fin 9800, open_price = None\<rparr>"
        "Rejected None" "Rejected (Some ''FX HTTP 503'')"]
    by blast
qed

section \<open>The overall status\<close>

text \<open>
  C5. The handler answers with status 502 if and only if both \<open>comex\<close> and \<open>sge\<close> are
  absent from the result, and with 200 otherwise. When all three adapters fail, the
  errors hold exactly three entries (and the status is 502).
\<close>

theorem failure_status_iff_no_data:
  "settle_and_respond now s c f
     = Json (if comex (assemble now s c f) = None \<and> sge (assemble now s c f) = None
             then 502 else 200)
         (assemble now s c f)
   \<and> length (errors (assemble now (Rejected a) (Rejected b) (Rejected e))) = 3
   \<and> settle_and_respond now (Rejected a) (Rejected b) (Rejected e)
     = Json 502 (assemble now (Rejected a) (Rejected b) (Rejected e))"
  by (simp add: settle_and_respond_def status_of_def Let_def errors_assemble comex_assemble
      sge_assemble)

theorem failure_status_iff_no_data_witness:
  "settle_and_respond ''t'' (Rejected (Some ''SGE HTTP 500'')) (Rejected None)
       (Fulfilled (JNum (number_value (715 / 100))))
     = Json 502 (assemble ''t'' (Rejected (Some ''SGE HTTP 500'')) (Rejected None)
         (Fulfilled (JNum (number_value (715 / 100)))))"
  using failure_status_iff_no_data [of "''t''" "Rejected (Some ''SGE HTTP 500'')" "Rejected None"
      "Fulfilled (JNum (number_value (715 / 100)))"]
  by (simp add: comex_assemble sge_assemble)

section \<open>The premium\<close>




text \<open>
  What is rounded is the double that the arithmetic produces. With \<open>usd_per_oz\<close> 39.1512
  and the COMEX price 48, where the decimals give \<open>-18.435\<close> exactly, the percentage is
  \<open>-18.43\<close>; with \<open>usd_per_oz\<close> 42.9576 and the COMEX price 43.12345, where the decimals
  give \<open>-0.16585\<close>, the difference is \<open>-0.1658\<close>.
\<close>

lemma premium_rounds_the_double:
  "toFixed_parsed 2 (js_mul (js_div (js_sub (number_value (391512 / 10 ^ 4))
       (to_number (JNum (Fin 48)))) (to_number (JNum (Fin 48)))) (Fin 100))
   = number_value (- (1843 / 10 ^ 2))"
  "toFixed_parsed 4 (js_sub (number_value (429576 / 10 ^ 4))
       (to_number (JNum (number_value (4312345 / 10 ^ 5)))))
   = number_value (- (1658 / 10 ^ 4))"
  by code_simp+

section \<open>The scan of the quotes table\<close>

lemma js_gt0_truthy: "js_gt0 x \<Longrightarrow> truthy x"
  by (cases x) simp_all

lemma sge_row_valid:
  "sge_row result cells = (if valid_ag_row cells then Some (quote_of_row cells) else result)"
  using js_gt0_truthy [of "parseFloat (trim (cell_text cells 1))"]
  by (auto simp add: sge_row_def valid_ag_row_def is_ag_row_def row_latest_def quote_of_row_def
      Let_def)

lemma foldl_sge_row:
  "foldl sge_row acc rows
   = (case last_valid_quote rows of None \<Rightarrow> acc | Some q \<Rightarrow> Some q)"
proof (induction rows rule: rev_induct)
  case Nil
  show ?case by (simp add: last_valid_quote_def)
next
  case (snoc r rows)
  show ?case
  proof (cases "valid_ag_row r")
    case True
    then show ?thesis by (simp add: sge_row_valid last_valid_quote_def)
  next
    case False
    then show ?thesis using snoc by (simp add: sge_row_valid last_valid_quote_def)
  qed
qed

lemma fetchSGE_last_valid:
  "res_ok st \<Longrightarrow> fetchSGE (Responded st rows)
     = (case last_valid_quote rows of
          None \<Rightarrow> Rejected (Some ''Ag(T+D) not found or market closed'')
        | Some q \<Rightarrow> Fulfilled q)"
  by (simp add: fetchSGE_def foldl_sge_row split: option.split)

lemma last_valid_quote_positive:
  "last_valid_quote rows = Some q \<Longrightarrow> js_gt0 (latest q)"
proof -
  assume h: "last_valid_quote rows = Some q"
  then have ne: "filter valid_ag_row rows \<noteq> []" and q: "q = quote_of_row (last (filter valid_ag_row rows))"
    by (auto simp add: last_valid_quote_def Let_def split: if_splits)
  from ne have "last (filter valid_ag_row rows) \<in> set (filter valid_ag_row rows)"
    by (rule last_in_set)
  then have "valid_ag_row (last (filter valid_ag_row rows))" by simp
  with q show ?thesis by (simp add: valid_ag_row_def quote_of_row_def)
qed

lemma fetchSGE_latest_positive:
  "fetchSGE up = Fulfilled q \<Longrightarrow> js_gt0 (latest q)"
  by (cases up)
    (auto simp add: fetchSGE_def foldl_sge_row split: if_splits option.splits
      dest: last_valid_quote_positive)

lemma fetchSGE_no_valid_row:
  "res_ok st \<Longrightarrow> filter valid_ag_row rows = [] \<Longrightarrow>
   fetchSGE (Responded st rows) = Rejected (Some ''Ag(T+D) not found or market closed'')"
  by (simp add: fetchSGE_last_valid last_valid_quote_def)

lemma two_rows_eval:
  "last_valid_quote
     [[''Ag(T+D)'', ''9875.0'', ''9900.0'', ''9800.0'', ''9850.0''],
      [''Ag(T+D)'', ''9880.0'', ''9910.0'', ''9810.0''],
      [''Ag(T+D)'', ''0.0'', ''0.0'', ''0.0'', ''0.0'']]
   = Some \<lparr>latest = Fin 9880, high = Fin 9910, low = Fin 9810, open_price = None\<rparr>"
  by code_simp

lemma res_ok_200: "res_ok 200"
  by (simp add: res_ok_def)

text \<open>
  C10. In the aggregator's \<open>fetchSGE\<close>, when several rows match the label, the quote
  returned is that of the last matching row whose parsed latest value is positive; a
  later matching row whose latest value is zero or not a number does not overwrite it.
\<close>

theorem fetchSGE_takes_last_valid_row:
  "foldl sge_row None rows = last_valid_quote rows
   \<and> (res_ok st \<longrightarrow> fetchSGE (Responded st rows)
         = (case last_valid_quote rows of
              None \<Rightarrow> Rejected (Some ''Ag(T+D) not found or market closed'')
            | Some q \<Rightarrow> Fulfilled q))
   \<and> (is_ag_row r \<and> \<not> js_gt0 (row_latest r)
        \<longrightarrow> fetchSGE (Responded st (rows @ [r])) = fetchSGE (Responded st rows))"
proof (intro conjI impI)
  show "foldl sge_row None rows = last_valid_quote rows"
    by (simp add: foldl_sge_row split: option.split)
next
  assume "res_ok st"
  then show "fetchSGE (Responded st rows)
         = (case last_valid_quote rows of
              None \<Rightarrow> Rejected (Some ''Ag(T+D) not found or market closed'')
            | Some q \<Rightarrow> Fulfilled q)"
    by (rule fetchSGE_last_valid)
next
  assume "is_ag_row r \<and> \<not> js_gt0 (row_latest r)"
  then have "\<not> valid_ag_row r" by (simp add: valid_ag_row_def)
  then show "fetchSGE (Responded st (rows @ [r])) = fetchSGE (Responded st rows)"
    by (simp add: fetchSGE_def sge_row_valid)
qed

theorem fetchSGE_takes_last_valid_row_witness:
  "fetchSGE (Responded 200
     [[''Ag(T+D)'', ''9875.0'', ''9900.0'', ''9800.0'', ''9850.0''],
      [''Ag(T+D)'', ''9880.0'', ''9910.0'', ''9810.0''],
      [''Ag(T+D)'', ''0.0'', ''0.0'', ''0.0'', ''0.0'']])
   = Fulfilled \<lparr>latest = Fin 9880, high = Fin 9910, low = Fin 9810, open_price = None\<rparr>
   \<and> fetchSGE (Responded 200
     ([[''Ag(T+D)'', ''9875.0'', ''9900.0'', ''9800.0'', ''9850.0'']]
      @ [[''Ag(T+D)'', ''closed'', ''0.0'', ''0.0'', ''0.0'']]))
   = fetchSGE (Responded 200 [[''Ag(T+D)'', ''9875.0'', ''9900.0'', ''9800.0'', ''9850.0'']])"
proof -
  have row: "is_ag_row [''Ag(T+D)'', ''closed'', ''0.0'', ''0.0'', ''0.0'']
      \<and> \<not> js_gt0 (row_latest [''Ag(T+D)'', ''closed'', ''0.0'', ''0.0'', ''0.0''])"
    by code_simp
  from fetchSGE_takes_last_valid_row [of
      "[[''Ag(T+D)'', ''9875.0'', ''9900.0'', ''9800.0'', ''9850.0''],
        [''Ag(T+D)'', ''9880.0'', ''9910.0'', ''9810.0''],
        [''Ag(T+D)'', ''0.0'', ''0.0'', ''0.0'', ''0.0'']]" 200] res_ok_200 two_rows_eval
  have "fetchSGE (Responded 200
     [[''Ag(T+D)'', ''9875.0'', ''9900.0'', ''9800.0'', ''9850.0''],
      [''Ag(T+D)'', ''9880.0'', ''9910.0'', ''9810.0''],
      [''Ag(T+D)'', ''0.0'', ''0.0'', ''0.0'', ''0.0'']])
   = Fulfilled \<lparr>latest = Fin 9880, high = Fin 9910, low = Fin 9810, open_price = None\<rparr>"
    by simp
  moreover from fetchSGE_takes_last_valid_row [of
      "[[''Ag(T+D)'', ''9875.0'', ''9900.0'', ''9800.0'', ''9850.0'']]" 200
      "[''Ag(T+D)'', ''closed'', ''0.0'', ''0.0'', ''0.0'']"] row
  have "fetchSGE (Responded 200
     ([[''Ag(T+D)'', ''9875.0'', ''9900.0'', ''9800.0'', ''9850.0'']]
      @ [[''Ag(T+D)'', ''closed'', ''0.0'', ''0.0'', ''0.0'']]))
   = fetchSGE (Responded 200 [[''Ag(T+D)'', ''9875.0'', ''9900.0'', ''9800.0'', ''9850.0'']])"
    by blast
  ultimately show ?thesis by (rule conjI)
qed

section \<open>Prices that are not positive\<close>

text \<open>
  C6: a parsed latest price that is zero, not a number or otherwise not positive makes
  the adapter fail with a "not found or market closed" error and is never returned as a
  quote. The aggregator's \<open>fetchSGE\<close> keeps to this (\<open>fetchSGE_latest_positive\<close>,
  \<open>fetchSGE_no_valid_row\<close>). The standalone endpoint does not: it tests the price for
  zero and NaN only, and answers a page whose price is \<open>-5.0\<close> with status 200 and that
  price, where \<open>fetchSGE\<close> rejects the same page.
\<close>

theorem shanghai_accepts_negative_price:
  "shanghai_handler ''GET'' ''t''
     \<lparr>sge_page = Responded 200 [[''Ag(T+D)'', ''-5.0'', ''0.0'', ''0.0'', ''0.0'']],
      comex_feed = Failed ''unused'',
      fx_feed = Responded 200
        (Document (JObj [(''rates'', JObj [(''CNY'', JNum (number_value (715 / 100)))])]))\<rparr>
   = (Json 200 (Quote \<lparr>usd_per_oz = number_value (- (218 / 10 ^ 4)), rmb_per_kg = Fin (- 5),
        rmb_high = Fin 0, rmb_low = Fin 0, rmb_open = None,
        usd_cny_rate = JNum (number_value (715 / 100)), quote_timestamp = ''t'',
        quote_source = ''Shanghai Gold Exchange - Ag(T+D) Delayed Quotes'',
        note = ''Exchange rate is USD/CNY (onshore). Offshore CNH rate may differ slightly.''\<rparr>),
      [sge_url, fx_url])
   \<and> fetchSGE (Responded 200 [[''Ag(T+D)'', ''-5.0'', ''0.0'', ''0.0'', ''0.0'']])
     = Rejected (Some ''Ag(T+D) not found or market closed'')"
  by code_simp

section \<open>The FX rate\<close>

lemma type_error_not_found:
  "type_error base name \<noteq> ''CNY rate not found''"
  "type_error base name \<noteq> ''CNY rate not found in exchange rate response''"
  by (simp_all add: type_error_def)

lemma nullish_falsy: "nullish v \<Longrightarrow> \<not> js_truthy v"
  by (auto simp add: nullish_def)

lemma shanghai_fx_truthy:
  "shanghai_fx w reqs = (Inr v, reqs') \<Longrightarrow> js_truthy v"
  by (auto simp add: shanghai_fx_def Let_def
      split: fetched.splits json_body.splits if_splits)

text \<open>
  C8, as amended. Every value that the FX adapter returns is a truthy \<open>rates.CNY\<close> of the
  response: never zero, NaN, null, false or the empty string, but of either sign when it
  is a number, and not necessarily a number. Given a success status and a JSON body, the
  adapter fails with "CNY rate not found" exactly when the body is not null and has no
  truthy \<open>rates.CNY\<close> (\<open>rates\<close> or its \<open>CNY\<close> is absent or falsy), returns the rate when
  there is a truthy one, and fails with a TypeError on the body null. The standalone
  endpoint fails with "CNY rate not found in exchange rate response" exactly when the
  body has a \<open>rates\<close> other than null and no truthy \<open>CNY\<close> in it.
\<close>

theorem fetchFX_returns_any_truthy_rate:
  "(fetchFX up = Fulfilled v \<longrightarrow> js_truthy v)
   \<and> (res_ok status
        \<longrightarrow> (fetchFX (Responded status (Document data)) = Rejected (Some ''CNY rate not found''))
            = (\<not> nullish data \<and> \<not> js_truthy (rates_CNY data)))
   \<and> (res_ok status
        \<longrightarrow> (fetchFX (Responded status (Document data)) = Fulfilled v)
            = (\<not> nullish data \<and> rates_CNY data = v \<and> js_truthy v))
   \<and> (res_ok status \<and> nullish data
        \<longrightarrow> fetchFX (Responded status (Document data))
            = Rejected (Some (type_error data ''rates'')))
   \<and> js_truthy (rates_CNY data)
       = (js_truthy (get_prop data ''rates'')
          \<and> js_truthy (get_prop (get_prop data ''rates'') ''CNY''))
   \<and> (shanghai_fx w reqs = (Inr v, reqs') \<longrightarrow> js_truthy v)
   \<and> (res_ok status \<and> fx_feed w = Responded status (Document data)
        \<longrightarrow> (fst (shanghai_fx w reqs) = Inl ''CNY rate not found in exchange rate response'')
            = (\<not> nullish data \<and> \<not> nullish (get_prop data ''rates'')
               \<and> \<not> js_truthy (get_prop (get_prop data ''rates'') ''CNY'')))"
proof (intro conjI impI)
  assume "fetchFX up = Fulfilled v"
  then show "js_truthy v"
    by (auto simp add: fetchFX_def Let_def split: fetched.splits json_body.splits if_splits)
next
  assume "res_ok status"
  then show "(fetchFX (Responded status (Document data)) = Rejected (Some ''CNY rate not found''))
            = (\<not> nullish data \<and> \<not> js_truthy (rates_CNY data))"
    by (simp add: fetchFX_def Let_def type_error_not_found)
next
  assume "res_ok status"
  then show "(fetchFX (Responded status (Document data)) = Fulfilled v)
            = (\<not> nullish data \<and> rates_CNY data = v \<and> js_truthy v)"
    by (auto simp add: fetchFX_def Let_def)
next
  assume "res_ok status \<and> nullish data"
  then show "fetchFX (Responded status (Document data))
            = Rejected (Some (type_error data ''rates''))"
    by (simp add: fetchFX_def)
next
  show "js_truthy (rates_CNY data)
       = (js_truthy (get_prop data ''rates'')
          \<and> js_truthy (get_prop (get_prop data ''rates'') ''CNY''))"
    by (simp add: rates_CNY_def js_and_def)
next
  assume "shanghai_fx w reqs = (Inr v, reqs')"
  then show "js_truthy v" by (rule shanghai_fx_truthy)
next
  assume "res_ok status \<and> fx_feed w = Responded status (Document data)"
  then show "(fst (shanghai_fx w reqs) = Inl ''CNY rate not found in exchange rate response'')
            = (\<not> nullish data \<and> \<not> nullish (get_prop data ''rates'')
               \<and> \<not> js_truthy (get_prop (get_prop data ''rates'') ''CNY''))"
    by (simp add: shanghai_fx_def Let_def type_error_not_found)
qed

lemma rate_715_truthy: "js_truthy (JNum (number_value (715 / 100)))"
  by code_simp

theorem fetchFX_returns_any_truthy_rate_witness:
  "fetchFX (Responded 200 (Document (JObj [(''rates'', JObj [(''EUR'', JNum (Fin 1))])])))
     = Rejected (Some ''CNY rate not found'')
   \<and> fetchFX (Responded 200
        (Document (JObj [(''rates'', JObj [(''CNY'', JNum (number_value (715 / 100)))])])))
     = Fulfilled (JNum (number_value (715 / 100)))
   \<and> js_truthy (JNum (number_value (715 / 100)))
   \<and> fetchFX (Responded 200 (Document JNull)) = Rejected (Some (type_error JNull ''rates''))
   \<and> fst (shanghai_fx
        \<lparr>sge_page = Failed ''unused'', comex_feed = Failed ''unused'',
         fx_feed = Responded 200
           (Document (JObj [(''rates'', JObj [(''EUR'', JNum (Fin 1))])]))\<rparr> [])
     = Inl ''CNY rate not found in exchange rate response''"
proof -
  let ?absent = "JObj [(''rates'', JObj [(''EUR'', JNum (Fin 1))])]"
  let ?there = "JObj [(''rates'', JObj [(''CNY'', JNum (number_value (715 / 100)))])]"
  let ?w = "\<lparr>sge_page = Failed ''unused'', comex_feed = Failed ''unused'',
         fx_feed = Responded 200 (Document ?absent)\<rparr>"
  let ?w' = "\<lparr>sge_page = Failed ''unused'', comex_feed = Failed ''unused'',
         fx_feed = Responded 200 (Document ?there)\<rparr>"
  note c2 = conjunct2 [THEN conjunct1]
  note c3 = conjunct2 [THEN conjunct2, THEN conjunct1]
  note c4 = conjunct2 [THEN conjunct2, THEN conjunct2, THEN conjunct1]
  note c6 = conjunct2 [THEN conjunct2, THEN conjunct2, THEN conjunct2, THEN conjunct2,
      THEN conjunct1]
  note c7 = conjunct2 [THEN conjunct2, THEN conjunct2, THEN conjunct2, THEN conjunct2,
      THEN conjunct2]
  have absent: "\<not> nullish ?absent \<and> \<not> js_truthy (rates_CNY ?absent)"
    by (simp add: rates_CNY_def js_and_def nullish_def)
  have there: "\<not> nullish ?there \<and> rates_CNY ?there = JNum (number_value (715 / 100))
      \<and> js_truthy (JNum (number_value (715 / 100)))"
    using rate_715_truthy by (simp add: rates_CNY_def js_and_def nullish_def)
  have one: "fetchFX (Responded 200 (Document ?absent)) = Rejected (Some ''CNY rate not found'')"
    using fetchFX_returns_any_truthy_rate [THEN c2, rule_format, OF res_ok_200, of ?absent] absent
    by simp
  have two: "fetchFX (Responded 200 (Document ?there)) = Fulfilled (JNum (number_value (715 / 100)))"
    using fetchFX_returns_any_truthy_rate [THEN c3, rule_format, OF res_ok_200, of ?there
        "JNum (number_value (715 / 100))"] there
    by simp
  have three: "js_truthy (JNum (number_value (715 / 100)))"
    using fetchFX_returns_any_truthy_rate [THEN conjunct1, rule_format, OF two] .
  have "res_ok 200 \<and> nullish JNull"
    using res_ok_200 by (simp add: nullish_def)
  from fetchFX_returns_any_truthy_rate [THEN c4, rule_format, OF this]
  have four: "fetchFX (Responded 200 (Document JNull))
      = Rejected (Some (type_error JNull ''rates''))" .
  have "shanghai_fx ?w' [] = (Inr (JNum (number_value (715 / 100))), [fx_url])"
    using rate_715_truthy by (simp add: shanghai_fx_def res_ok_def nullish_def)
  note fetchFX_returns_any_truthy_rate [THEN c6, rule_format, OF this]
  have "res_ok 200 \<and> fx_feed ?w = Responded 200 (Document ?absent)"
    using res_ok_200 by simp
  from fetchFX_returns_any_truthy_rate [THEN c7, rule_format, OF this, of "[]"]
  have five: "fst (shanghai_fx ?w []) = Inl ''CNY rate not found in exchange rate response''"
    by (simp add: nullish_def)
  from one two three four five show ?thesis by simp
qed

text \<open>
  C8 as stated fails: a negative rate is returned, and a rate field that is there with
  the value zero is answered with "CNY rate not found".
\<close>

theorem fetchFX_negative_and_zero_rate:
  "fetchFX (Responded 200
      (Document (JObj [(''rates'', JObj [(''CNY'', JNum (number_value (- (715 / 100))))])])))
     = Fulfilled (JNum (number_value (- (715 / 100))))
   \<and> \<not> js_gt0 (number_value (- (715 / 100)))
   \<and> fetchFX (Responded 200 (Document (JObj [(''rates'', JObj [(''CNY'', JNum (Fin 0))])])))
     = Rejected (Some ''CNY rate not found'')"
  by code_simp

text \<open>
  A rate that is not a number is returned as it is, and the conversion reads it as a
  number: the string \<open>-0\<close> is truthy and stands for negative zero, so that a positive
  price is converted to negative infinity.
\<close>

lemma fetchFX_returns_strings:
  "fetchFX (Responded 200 (Document (JObj [(''rates'', JObj [(''CNY'', JStr ''-0'')])])))
     = Fulfilled (JStr ''-0'')"
  "toFixed_parsed 4 (js_div (Fin 9875) (js_mul TROY_OZ_PER_KG (to_number (JStr ''-0''))))
     = NegInf"
  by code_simp+

section \<open>The standalone endpoint has no partial results\<close>

lemma shanghai_row_matching:
  "shanghai_row vars cells = (if is_ag_row cells then Some (vars_of_row cells) else vars)"
  by (auto simp add: shanghai_row_def is_ag_row_def vars_of_row_def row_latest_def Let_def)

lemma foldl_shanghai_row:
  "foldl shanghai_row acc rows
   = (case last_ag_row rows of None \<Rightarrow> acc | Some r \<Rightarrow> Some (vars_of_row r))"
proof (induction rows rule: rev_induct)
  case Nil
  show ?case by (simp add: last_ag_row_def)
next
  case (snoc r rows)
  show ?case
  proof (cases "is_ag_row r")
    case True
    then show ?thesis by (simp add: shanghai_row_matching last_ag_row_def)
  next
    case False
    then show ?thesis using snoc by (simp add: shanghai_row_matching last_ag_row_def)
  qed
qed

lemma js_is0_falsy: "js_is0 x \<Longrightarrow> \<not> truthy x"
  by (cases x) simp_all

lemma shanghai_sge_cases:
  "shanghai_sge w reqs =
     (case sge_page w of
        Failed m \<Rightarrow> Inl m
      | Responded st rows \<Rightarrow>
          if \<not> res_ok st then Inl (''SGE returned status '' @ show_nat st)
          else (case last_ag_row rows of
                  None \<Rightarrow> Inl ''Ag(T+D) price not found or market closed (0.0)''
                | Some r \<Rightarrow>
                    if truthy (row_latest r) then Inr (vars_of_row r)
                    else Inl ''Ag(T+D) price not found or market closed (0.0)''),
      reqs @ [sge_url])"
  using js_is0_falsy
  by (auto simp add: shanghai_sge_def foldl_shanghai_row Let_def vars_of_row_def
      split: fetched.splits option.splits)

lemma show_nat_503: "show_nat 503 = ''503''"
  by code_simp

lemma good_quote_eval:
  "shanghai_quote_of (vars_of_row [''Ag(T+D)'', ''9875.0'', ''9900.0'', ''9800.0'', ''9850.0''])
     (JNum (number_value (715 / 100))) ''t''
   = Json 200 (Quote \<lparr>usd_per_oz = number_value (429576 / 10 ^ 4), rmb_per_kg = Fin 9875,
        rmb_high = Fin 9900, rmb_low = Fin 9800, rmb_open = Some (Fin 9850),
        usd_cny_rate = JNum (number_value (715 / 100)), quote_timestamp = ''t'',
        quote_source = ''Shanghai Gold Exchange - Ag(T+D) Delayed Quotes'',
        note = ''Exchange rate is USD/CNY (onshore). Offshore CNH rate may differ slightly.''\<rparr>)"
  by code_simp

text \<open>
  C9. The standalone endpoint runs its steps in sequence inside one \<open>try\<close>. Whatever
  fails first (the page request, a status of the page other than success, no matching
  row or a latest price of zero or NaN in the last one, the rate request, a status of the
  rate response other than success, a body that is not JSON, a body or a \<open>rates\<close> that is
  null or undefined, no truthy \<open>CNY\<close>) yields status 500 with a body of the error
  message, the time and a hint, and no price. When the page step fails, only the page
  has been requested. Only when every step succeeds is the answer a quote.
\<close>

theorem shanghai_all_or_nothing:
  assumes "method \<noteq> ''OPTIONS''"
  shows
  "(\<forall>m. sge_page w = Failed m
      \<longrightarrow> shanghai_handler method now w = (shanghai_catch m now, [sge_url]))
   \<and> (\<forall>st rows. sge_page w = Responded st rows \<and> \<not> res_ok st
      \<longrightarrow> shanghai_handler method now w
          = (shanghai_catch (''SGE returned status '' @ show_nat st) now, [sge_url]))
   \<and> (\<forall>st rows. sge_page w = Responded st rows \<and> res_ok st \<and> last_ag_row rows = None
      \<longrightarrow> shanghai_handler method now w
          = (shanghai_catch ''Ag(T+D) price not found or market closed (0.0)'' now, [sge_url]))
   \<and> (\<forall>st rows r. sge_page w = Responded st rows \<and> res_ok st \<and> last_ag_row rows = Some r
        \<and> \<not> truthy (row_latest r)
      \<longrightarrow> shanghai_handler method now w
          = (shanghai_catch ''Ag(T+D) price not found or market closed (0.0)'' now, [sge_url]))
   \<and> (\<forall>st rows r. sge_page w = Responded st rows \<and> res_ok st \<and> last_ag_row rows = Some r
        \<and> truthy (row_latest r)
      \<longrightarrow> (\<forall>m. fx_feed w = Failed m
            \<longrightarrow> shanghai_handler method now w = (shanghai_catch m now, [sge_url, fx_url]))
        \<and> (\<forall>st' body. fx_feed w = Responded st' body \<and> \<not> res_ok st'
            \<longrightarrow> shanghai_handler method now w
                = (shanghai_catch (''Exchange rate API returned status '' @ show_nat st') now,
                   [sge_url, fx_url]))
        \<and> (\<forall>st' m. fx_feed w = Responded st' (Malformed m) \<and> res_ok st'
            \<longrightarrow> shanghai_handler method now w = (shanghai_catch m now, [sge_url, fx_url]))
        \<and> (\<forall>st' data. fx_feed w = Responded st' (Document data) \<and> res_ok st'
              \<and> nullish data
            \<longrightarrow> shanghai_handler method now w
                = (shanghai_catch (type_error data ''rates'') now, [sge_url, fx_url]))
        \<and> (\<forall>st' data. fx_feed w = Responded st' (Document data) \<and> res_ok st'
              \<and> \<not> nullish data \<and> nullish (get_prop data ''rates'')
            \<longrightarrow> shanghai_handler method now w
                = (shanghai_catch (type_error (get_prop data ''rates'') ''CNY'') now,
                   [sge_url, fx_url]))
        \<and> (\<forall>st' data. fx_feed w = Responded st' (Document data) \<and> res_ok st'
              \<and> \<not> nullish data \<and> \<not> nullish (get_prop data ''rates'')
              \<and> \<not> js_truthy (get_prop (get_prop data ''rates'') ''CNY'')
            \<longrightarrow> shanghai_handler method now w
                = (shanghai_catch ''CNY rate not found in exchange rate response'' now,
                   [sge_url, fx_url]))
        \<and> (\<forall>st' data usdCny. fx_feed w = Responded st' (Document data) \<and> res_ok st'
              \<and> \<not> nullish data \<and> \<not> nullish (get_prop data ''rates'')
              \<and> get_prop (get_prop data ''rates'') ''CNY'' = usdCny \<and> js_truthy usdCny
            \<longrightarrow> shanghai_handler method now w
                = (shanghai_quote_of (vars_of_row r) usdCny now, [sge_url, fx_url])))
   \<and> (\<forall>m. shanghai_catch m now
        = Json 500 (Failure \<lparr>error = m, failure_timestamp = now,
            hint = ''SGE may be unreachable or market is closed. Cached data may still be served.''\<rparr>))"
  using assms
  by (auto simp add: shanghai_handler_def shanghai_sge_cases shanghai_fx_def shanghai_catch_def
      Let_def)

theorem shanghai_all_or_nothing_witness:
  "shanghai_handler ''GET'' ''t''
     \<lparr>sge_page = Responded 503 [], comex_feed = Failed ''unused'',
      fx_feed = Responded 200
        (Document (JObj [(''rates'', JObj [(''CNY'', JNum (number_value (715 / 100)))])]))\<rparr>
   = (shanghai_catch ''SGE returned status 503'' ''t'', [sge_url])
   \<and> shanghai_handler ''GET'' ''t''
     \<lparr>sge_page = Failed ''This operation was aborted'', comex_feed = Failed ''unused'',
      fx_feed = Responded 200
        (Document (JObj [(''rates'', JObj [(''CNY'', JNum (number_value (715 / 100)))])]))\<rparr>
   = (shanghai_catch ''This operation was aborted'' ''t'', [sge_url])
   \<and> shanghai_handler ''GET'' ''t''
     \<lparr>sge_page = Responded 200 [[''Au(T+D)'', ''780.0'', ''781.0'', ''779.0'']],
      comex_feed = Failed ''unused'',
      fx_feed = Responded 200
        (Document (JObj [(''rates'', JObj [(''CNY'', JNum (number_value (715 / 100)))])]))\<rparr>
   = (shanghai_catch ''Ag(T+D) price not found or market closed (0.0)'' ''t'', [sge_url])
   \<and> shanghai_handler ''GET'' ''t''
     \<lparr>sge_page = Responded 200 [[''Ag(T+D)'', ''0.0'', ''0.0'', ''0.0'', ''0.0'']],
      comex_feed = Failed ''unused'',
      fx_feed = Responded 200
        (Document (JObj [(''rates'', JObj [(''CNY'', JNum (number_value (715 / 100)))])]))\<rparr>
   = (shanghai_catch ''Ag(T+D) price not found or market closed (0.0)'' ''t'', [sge_url])
   \<and> shanghai_handler ''GET'' ''t''
     \<lparr>sge_page = Responded 200 [[''Ag(T+D)'', ''9875.0'', ''9900.0'', ''9800.0'', ''9850.0'']],
      comex_feed = Failed ''unused'', fx_feed = Failed ''This operation was aborted''\<rparr>
   = (shanghai_catch ''This operation was aborted'' ''t'', [sge_url, fx_url])
   \<and> shanghai_handler ''GET'' ''t''
     \<lparr>sge_page = Responded 200 [[''Ag(T+D)'', ''9875.0'', ''9900.0'', ''9800.0'', ''9850.0'']],
      comex_feed = Failed ''unused'',
      fx_feed = Responded 503 (Malformed ''Unexpected token'')\<rparr>
   = (shanghai_catch ''Exchange rate API returned status 503'' ''t'', [sge_url, fx_url])
   \<and> shanghai_handler ''GET'' ''t''
     \<lparr>sge_page = Responded 200 [[''Ag(T+D)'', ''9875.0'', ''9900.0'', ''9800.0'', ''9850.0'']],
      comex_feed = Failed ''unused'',
      fx_feed = Responded 200 (Malformed ''Unexpected token'')\<rparr>
   = (shanghai_catch ''Unexpected token'' ''t'', [sge_url, fx_url])
   \<and> shanghai_handler ''GET'' ''t''
     \<lparr>sge_page = Responded 200 [[''Ag(T+D)'', ''9875.0'', ''9900.0'', ''9800.0'', ''9850.0'']],
      comex_feed = Failed ''unused'',
      fx_feed = Responded 200 (Document JNull)\<rparr>
   = (shanghai_catch (type_error JNull ''rates'') ''t'', [sge_url, fx_url])
   \<and> shanghai_handler ''GET'' ''t''
     \<lparr>sge_page = Responded 200 [[''Ag(T+D)'', ''9875.0'', ''9900.0'', ''9800.0'', ''9850.0'']],
      comex_feed = Failed ''unused'',
      fx_feed = Responded 200 (Document (JObj [(''rates'', JNull)]))\<rparr>
   = (shanghai_catch (type_error JNull ''CNY'') ''t'', [sge_url, fx_url])
   \<and> shanghai_handler ''GET'' ''t''
     \<lparr>sge_page = Responded 200 [[''Ag(T+D)'', ''9875.0'', ''9900.0'', ''9800.0'', ''9850.0'']],
      comex_feed = Failed ''unused'',
      fx_feed = Responded 200 (Document (JObj [(''rates'', JObj [(''EUR'', JNum (Fin 1))])]))\<rparr>
   = (shanghai_catch ''CNY rate not found in exchange rate response'' ''t'', [sge_url, fx_url])
   \<and> shanghai_handler ''GET'' ''t''
     \<lparr>sge_page = Responded 200 [[''Ag(T+D)'', ''9875.0'', ''9900.0'', ''9800.0'', ''9850.0'']],
      comex_feed = Failed ''unused'',
      fx_feed = Responded 200
        (Document (JObj [(''rates'', JObj [(''CNY'', JNum (number_value (715 / 100)))])]))\<rparr>
   = (Json 200 (Quote \<lparr>usd_per_oz = number_value (429576 / 10 ^ 4), rmb_per_kg = Fin 9875,
        rmb_high = Fin 9900, rmb_low = Fin 9800, rmb_open = Some (Fin 9850),
        usd_cny_rate = JNum (number_value (715 / 100)), quote_timestamp = ''t'',
        quote_source = ''Shanghai Gold Exchange - Ag(T+D) Delayed Quotes'',
        note = ''Exchange rate is USD/CNY (onshore). Offshore CNH rate may differ slightly.''\<rparr>),
      [sge_url, fx_url])"
proof -
  let ?rate = "JNum (number_value (715 / 100))"
  let ?doc = "JObj [(''rates'', JObj [(''CNY'', ?rate)])]"
  let ?norates = "JObj [(''rates'', JNull)]"
  let ?nocny = "JObj [(''rates'', JObj [(''EUR'', JNum (Fin 1))])]"
  let ?fx = "Responded 200 (Document ?doc)"
  let ?other = "[[''Au(T+D)'', ''780.0'', ''781.0'', ''779.0'']]"
  let ?zero = "[[''Ag(T+D)'', ''0.0'', ''0.0'', ''0.0'', ''0.0'']]"
  let ?good = "[[''Ag(T+D)'', ''9875.0'', ''9900.0'', ''9800.0'', ''9850.0'']]"
  let ?abort = "''This operation was aborted''"
  let ?w1 = "\<lparr>sge_page = Responded 503 [], comex_feed = Failed ''unused'', fx_feed = ?fx\<rparr>"
  let ?w2 = "\<lparr>sge_page = Failed ?abort, comex_feed = Failed ''unused'', fx_feed = ?fx\<rparr>"
  let ?w3 = "\<lparr>sge_page = Responded 200 ?other, comex_feed = Failed ''unused'', fx_feed = ?fx\<rparr>"
  let ?w4 = "\<lparr>sge_page = Responded 200 ?zero, comex_feed = Failed ''unused'', fx_feed = ?fx\<rparr>"
  let ?w5 = "\<lparr>sge_page = Responded 200 ?good, comex_feed = Failed ''unused'',
      fx_feed = Failed ?abort\<rparr>"
  let ?w6 = "\<lparr>sge_page = Responded 200 ?good, comex_feed = Failed ''unused'',
      fx_feed = Responded 503 (Malformed ''Unexpected token'')\<rparr>"
  let ?w7 = "\<lparr>sge_page = Responded 200 ?good, comex_feed = Failed ''unused'',
      fx_feed = Responded 200 (Malformed ''Unexpected token'')\<rparr>"
  let ?w8 = "\<lparr>sge_page = Responded 200 ?good, comex_feed = Failed ''unused'',
      fx_feed = Responded 200 (Document JNull)\<rparr>"
  let ?w9 = "\<lparr>sge_page = Responded 200 ?good, comex_feed = Failed ''unused'',
      fx_feed = Responded 200 (Document ?norates)\<rparr>"
  let ?w10 = "\<lparr>sge_page = Responded 200 ?good, comex_feed = Failed ''unused'',
      fx_feed = Responded 200 (Document ?nocny)\<rparr>"
  let ?w11 = "\<lparr>sge_page = Responded 200 ?good, comex_feed = Failed ''unused'', fx_feed = ?fx\<rparr>"
  note c2 = conjunct2 [THEN conjunct1]
  note c3 = conjunct2 [THEN conjunct2, THEN conjunct1]
  note c4 = conjunct2 [THEN conjunct2, THEN conjunct2, THEN conjunct1]
  note c5 = conjunct2 [THEN conjunct2, THEN conjunct2, THEN conjunct2, THEN conjunct1]
  note c6 = conjunct2 [THEN conjunct2, THEN conjunct2, THEN conjunct2, THEN conjunct2,
      THEN conjunct1]
  note c7 = conjunct2 [THEN conjunct2, THEN conjunct2, THEN conjunct2, THEN conjunct2,
      THEN conjunct2]
  have get: "''GET'' \<noteq> ''OPTIONS''" by simp
  note cases = shanghai_all_or_nothing [OF get]
  have bad: "\<not> res_ok 503" by (simp add: res_ok_def)
  have other: "last_ag_row ?other = None"
    by code_simp
  have zero: "last_ag_row ?zero = Some (hd ?zero) \<and> \<not> truthy (row_latest (hd ?zero))"
    by code_simp
  have good: "last_ag_row ?good = Some (hd ?good) \<and> truthy (row_latest (hd ?good))"
    by code_simp
  have page: "sge_page w = Responded 200 ?good \<Longrightarrow> sge_page w = Responded 200 ?good
      \<and> res_ok 200 \<and> last_ag_row ?good = Some (hd ?good) \<and> truthy (row_latest (hd ?good))"
    for w :: upstreams
    using good res_ok_200 by simp
  have "sge_page ?w1 = Responded 503 [] \<and> \<not> res_ok 503"
    using bad by simp
  from cases [of ?w1 "''t''", THEN c2, rule_format, OF this]
  have one: "shanghai_handler ''GET'' ''t'' ?w1
      = (shanghai_catch ''SGE returned status 503'' ''t'', [sge_url])"
    by (simp add: show_nat_503)
  have "sge_page ?w2 = Failed ?abort"
    by simp
  from cases [of ?w2 "''t''", THEN conjunct1, rule_format, OF this]
  have two: "shanghai_handler ''GET'' ''t'' ?w2 = (shanghai_catch ?abort ''t'', [sge_url])" .
  have "sge_page ?w3 = Responded 200 ?other \<and> res_ok 200 \<and> last_ag_row ?other = None"
    using other res_ok_200 by simp
  from cases [of ?w3 "''t''", THEN c3, rule_format, OF this]
  have three: "shanghai_handler ''GET'' ''t'' ?w3
      = (shanghai_catch ''Ag(T+D) price not found or market closed (0.0)'' ''t'', [sge_url])" .
  have "sge_page ?w4 = Responded 200 ?zero \<and> res_ok 200 \<and> last_ag_row ?zero = Some (hd ?zero)
      \<and> \<not> truthy (row_latest (hd ?zero))"
    using zero res_ok_200 by simp
  from cases [of ?w4 "''t''", THEN c4, rule_format, OF this]
  have four: "shanghai_handler ''GET'' ''t'' ?w4
      = (shanghai_catch ''Ag(T+D) price not found or market closed (0.0)'' ''t'', [sge_url])" .
  have "sge_page ?w5 = Responded 200 ?good" and "fx_feed ?w5 = Failed ?abort"
    by simp_all
  from cases [of ?w5 "''t''", THEN c5, rule_format, OF page [OF this(1)],
      THEN conjunct1, rule_format, OF this(2)]
  have five: "shanghai_handler ''GET'' ''t'' ?w5
      = (shanghai_catch ?abort ''t'', [sge_url, fx_url])" .
  have "sge_page ?w6 = Responded 200 ?good"
    and "fx_feed ?w6 = Responded 503 (Malformed ''Unexpected token'') \<and> \<not> res_ok 503"
    using bad by simp_all
  from cases [of ?w6 "''t''", THEN c5, rule_format, OF page [OF this(1)],
      THEN c2, rule_format, OF this(2)]
  have six: "shanghai_handler ''GET'' ''t'' ?w6
      = (shanghai_catch ''Exchange rate API returned status 503'' ''t'', [sge_url, fx_url])"
    by (simp add: show_nat_503)
  have "sge_page ?w7 = Responded 200 ?good"
    and "fx_feed ?w7 = Responded 200 (Malformed ''Unexpected token'') \<and> res_ok 200"
    using res_ok_200 by simp_all
  from cases [of ?w7 "''t''", THEN c5, rule_format, OF page [OF this(1)],
      THEN c3, rule_format, OF this(2)]
  have seven: "shanghai_handler ''GET'' ''t'' ?w7
      = (shanghai_catch ''Unexpected token'' ''t'', [sge_url, fx_url])" .
  have "sge_page ?w8 = Responded 200 ?good"
    and "fx_feed ?w8 = Responded 200 (Document JNull) \<and> res_ok 200 \<and> nullish JNull"
    using res_ok_200 by (simp_all add: nullish_def)
  from cases [of ?w8 "''t''", THEN c5, rule_format, OF page [OF this(1)],
      THEN c4, rule_format, OF this(2)]
  have eight: "shanghai_handler ''GET'' ''t'' ?w8
      = (shanghai_catch (type_error JNull ''rates'') ''t'', [sge_url, fx_url])" .
  have "sge_page ?w9 = Responded 200 ?good"
    and "fx_feed ?w9 = Responded 200 (Document ?norates) \<and> res_ok 200
      \<and> \<not> nullish ?norates \<and> nullish (get_prop ?norates ''rates'')"
    using res_ok_200 by (simp_all add: nullish_def)
  from cases [of ?w9 "''t''", THEN c5, rule_format, OF page [OF this(1)],
      THEN c5, rule_format, OF this(2)]
  have nine: "shanghai_handler ''GET'' ''t'' ?w9
      = (shanghai_catch (type_error JNull ''CNY'') ''t'', [sge_url, fx_url])"
    by simp
  have "sge_page ?w10 = Responded 200 ?good"
    and "fx_feed ?w10 = Responded 200 (Document ?nocny) \<and> res_ok 200
      \<and> \<not> nullish ?nocny \<and> \<not> nullish (get_prop ?nocny ''rates'')
      \<and> \<not> js_truthy (get_prop (get_prop ?nocny ''rates'') ''CNY'')"
    using res_ok_200 by (simp_all add: nullish_def)
  from cases [of ?w10 "''t''", THEN c5, rule_format, OF page [OF this(1)],
      THEN c6, rule_format, OF this(2)]
  have ten: "shanghai_handler ''GET'' ''t'' ?w10
      = (shanghai_catch ''CNY rate not found in exchange rate response'' ''t'', [sge_url, fx_url])" .
  have "sge_page ?w11 = Responded 200 ?good"
    and "fx_feed ?w11 = ?fx \<and> res_ok 200
      \<and> \<not> nullish ?doc \<and> \<not> nullish (get_prop ?doc ''rates'')
      \<and> get_prop (get_prop ?doc ''rates'') ''CNY'' = ?rate \<and> js_truthy ?rate"
    using res_ok_200 rate_715_truthy by (simp_all add: nullish_def)
  from cases [of ?w11 "''t''", THEN c5, rule_format, OF page [OF this(1)],
      THEN c7, rule_format, OF this(2)]
  have eleven: "shanghai_handler ''GET'' ''t'' ?w11
      = (Json 200 (Quote \<lparr>usd_per_oz = number_value (429576 / 10 ^ 4), rmb_per_kg = Fin 9875,
        rmb_high = Fin 9900, rmb_low = Fin 9800, rmb_open = Some (Fin 9850),
        usd_cny_rate = ?rate, quote_timestamp = ''t'',
        quote_source = ''Shanghai Gold Exchange - Ag(T+D) Delayed Quotes'',
        note = ''Exchange rate is USD/CNY (onshore). Offshore CNH rate may differ slightly.''\<rparr>),
      [sge_url, fx_url])"
    using good_quote_eval by simp
  from one two three four five six seven eight nine ten eleven show ?thesis
    by (intro conjI)
qed

end
